theory Spec2Isabelle
  imports Main "HOL-Library.Word"
begin

section \<open>Values, identifiers and their text form\<close>

text \<open>
  Go's \<open>interface{}\<close> values that the middleware stores in log fields or receives from
  \<open>recover()\<close>: a string, an integer, or an error with its text. Since Go 1.21
  \<open>recover()\<close> never returns \<open>nil\<close> while a panic is in flight (\<open>panic(nil)\<close> is turned
  into a \<open>*runtime.PanicNilError\<close>), so the test \<open>err != nil\<close> of \<open>Recovery\<close> holds for
  every panic and a panic value is always one of these.
\<close>

datatype any = AStr string | AInt int | AErr string

text \<open>
  \<open>encoding/hex.EncodeToString\<close>: two lower-case digits for each byte. The fixed-size
  byte arrays \<open>uuid.UUID\<close> and \<open>trace.TraceID\<close> (\<open>[16]byte\<close>) and \<open>trace.SpanID\<close>
  (\<open>[8]byte\<close>) are words of 128 and 64 bits, first byte most significant.
\<close>

definition hexdigit :: "nat \<Rightarrow> char" where
  "hexdigit n = ''0123456789abcdef'' ! (n mod 16)"

definition hex_byte :: "8 word \<Rightarrow> string" where
  "hex_byte b = [hexdigit (unat b div 16), hexdigit (unat b mod 16)]"

definition EncodeToString :: "8 word list \<Rightarrow> string" where
  "EncodeToString bs = concat (map hex_byte bs)"

definition bytes16 :: "128 word \<Rightarrow> 8 word list" where
  "bytes16 w = map (\<lambda>i. ucast (drop_bit (8 * (15 - i)) w)) [0..<16]"

definition bytes8 :: "64 word \<Rightarrow> 8 word list" where
  "bytes8 w = map (\<lambda>i. ucast (drop_bit (8 * (7 - i)) w)) [0..<8]"

text \<open>\<open>uuid.UUID.String()\<close>: the 8-4-4-4-12 form, 36 characters.\<close>

definition UUID_String :: "128 word \<Rightarrow> string" where
  "UUID_String u =
     (let b = bytes16 u in
        EncodeToString (take 4 b) @ ''-'' @
        EncodeToString (take 2 (drop 4 b)) @ ''-'' @
        EncodeToString (take 2 (drop 6 b)) @ ''-'' @
        EncodeToString (take 2 (drop 8 b)) @ ''-'' @
        EncodeToString (drop 10 b))"

definition TraceID_String :: "128 word \<Rightarrow> string" where
  "TraceID_String t = EncodeToString (bytes16 t)"

definition SpanID_String :: "64 word \<Rightarrow> string" where
  "SpanID_String t = EncodeToString (bytes8 t)"

text \<open>\<open>fmt.Sprintf("%d", n)\<close>: the decimal digits, with a minus sign for a negative number.\<close>

function decimal :: "nat \<Rightarrow> string" where
  "decimal n = (if n < 10 then [hexdigit n] else decimal (n div 10) @ [hexdigit (n mod 10)])"
  by pat_completeness auto
termination
  by (relation "measure id") auto

definition Sprintf_d :: "int \<Rightarrow> string" where
  "Sprintf_d n = (if n < 0 then CHR ''-'' # decimal (nat (- n)) else decimal (nat n))"

section \<open>The ambient call context (context.Context, trace.SpanContext)\<close>

text \<open>
  \<open>type ContextKey string\<close> with the four keys of pkg/logger. A context carries the string
  values stored under such keys and the span that the OpenTelemetry middleware put there.
  \<open>trace.SpanFromContext\<close> returns a no-op span with the all-zero span context when no span
  is stored, so "no active span" is the zero \<open>SpanContext\<close> with \<open>recording = False\<close>.
\<close>

datatype ContextKey = ContextKey string

definition RequestIDKey :: ContextKey where
  "RequestIDKey = ContextKey ''request_id''"

definition TraceIDKey :: ContextKey where
  "TraceIDKey = ContextKey ''trace_id''"

definition SpanIDKey :: ContextKey where
  "SpanIDKey = ContextKey ''span_id''"

definition UserIDKey :: ContextKey where
  "UserIDKey = ContextKey ''user_id''"

record SpanContext =
  TraceID :: "128 word"
  SpanID :: "64 word"

record Context =
  vals :: "ContextKey \<rightharpoonup> string"
  span :: SpanContext
  recording :: bool

definition WithValue :: "Context \<Rightarrow> ContextKey \<Rightarrow> string \<Rightarrow> Context" where
  "WithValue c k v = c\<lparr>vals := (vals c)(k \<mapsto> v)\<rparr>"

definition HasTraceID :: "SpanContext \<Rightarrow> bool" where
  "HasTraceID sc = (TraceID sc \<noteq> 0)"

definition HasSpanID :: "SpanContext \<Rightarrow> bool" where
  "HasSpanID sc = (SpanID sc \<noteq> 0)"

text \<open>pkg/tracing: \<open>GetTraceID\<close> and \<open>GetSpanID\<close> read the span of the context.\<close>

definition tracing_GetTraceID :: "Context \<Rightarrow> string" where
  "tracing_GetTraceID c =
     (if HasTraceID (span c) then TraceID_String (TraceID (span c)) else [])"

definition tracing_GetSpanID :: "Context \<Rightarrow> string" where
  "tracing_GetSpanID c =
     (if HasSpanID (span c) then SpanID_String (SpanID (span c)) else [])"

text \<open>pkg/logger: the getters return the stored string, or the empty string.\<close>

definition GetRequestID :: "Context \<Rightarrow> string" where
  "GetRequestID c = (case vals c RequestIDKey of Some i \<Rightarrow> i | None \<Rightarrow> [])"

definition GetTraceID :: "Context \<Rightarrow> string" where
  "GetTraceID c = (case vals c TraceIDKey of Some i \<Rightarrow> i | None \<Rightarrow> [])"

definition GetSpanID :: "Context \<Rightarrow> string" where
  "GetSpanID c = (case vals c SpanIDKey of Some i \<Rightarrow> i | None \<Rightarrow> [])"

definition WithSpanID :: "Context \<Rightarrow> string \<Rightarrow> Context" where
  "WithSpanID c spanID = WithValue c SpanIDKey spanID"

definition WithTraceID :: "Context \<Rightarrow> string \<Rightarrow> Context" where
  "WithTraceID c traceID = WithValue c TraceIDKey traceID"

section \<open>The structured logger (pkg/logger over zerolog)\<close>

text \<open>
  A \<open>zerolog.Logger\<close> value is the list of fields of its context, in the order in which
  they were added: zerolog appends each field to the record and does not remove an earlier
  field of the same key. An event is what the code hands to zerolog with \<open>Msg\<close>: a level, a
  message and the fields of the logger it was created from. The time stamp and caller that
  zerolog adds, and the level threshold of \<open>Config.Level\<close> that zerolog applies to the
  event, are outside the model.
\<close>

datatype Level = DebugLevel | InfoLevel | WarnLevel | ErrorLevel | FatalLevel

type_synonym zerolog_Logger = "(string \<times> any) list"

record Logger =
  zlog :: zerolog_Logger

record Event =
  level :: Level
  msg :: string
  event_fields :: "(string \<times> any) list"

definition WithContext :: "Logger \<Rightarrow> Context \<Rightarrow> zerolog_Logger" where
  "WithContext l c =
     (let event = zlog l;
          event = (case vals c RequestIDKey of
                     Some requestID \<Rightarrow>
                       if requestID \<noteq> [] then event @ [(''request_id'', AStr requestID)]
                       else event
                   | None \<Rightarrow> event);
          event = (case vals c TraceIDKey of
                     Some traceID \<Rightarrow>
                       if traceID \<noteq> [] then event @ [(''trace_id'', AStr traceID)]
                       else event
                   | None \<Rightarrow> event);
          event = (case vals c SpanIDKey of
                     Some spanID \<Rightarrow>
                       if spanID \<noteq> [] then event @ [(''span_id'', AStr spanID)]
                       else event
                   | None \<Rightarrow> event);
          event = (case vals c UserIDKey of
                     Some userID \<Rightarrow>
                       if userID \<noteq> [] then event @ [(''user_id'', AStr userID)]
                       else event
                   | None \<Rightarrow> event)
      in event)"

text \<open>
  \<open>WithFields\<close>: \<open>for k, v := range fields { event = event.Interface(k, v) }\<close>. The second
  argument is the entries of the Go map in the order in which the \<open>range\<close> loop visits them.
\<close>

fun range_Interface :: "zerolog_Logger \<Rightarrow> (string \<times> any) list \<Rightarrow> zerolog_Logger" where
  "range_Interface event [] = event"
| "range_Interface event ((k, v) # fs) = range_Interface (event @ [(k, v)]) fs"

definition WithFields :: "Logger \<Rightarrow> Context \<Rightarrow> (string \<times> any) list \<Rightarrow> zerolog_Logger" where
  "WithFields l c fs = range_Interface (WithContext l c) fs"

section \<open>The response, the metrics and the state of one request\<close>

text \<open>
  The response of net/http behind \<open>http.ResponseWriter\<close> (\<open>type response\<close> in
  net/http/server.go): the header map of \<open>Header()\<close>, the method of the request it
  answers, whether the final status line has been sent and with which code, the content
  length fixed when it was sent (\<open>-1\<close> for none), the number of body bytes the handler
  has offered, the body bytes accepted, the informational (1xx) status lines sent, and the
  number of \<open>WriteHeader\<close> calls that the server logged as superfluous. Header names are
  the strings of the source. A hijacked connection is not modelled.
\<close>

record response =
  header :: "string \<rightharpoonup> string list"
  reqMethod :: string
  wroteHeader :: bool
  status :: int
  contentLength :: int
  written :: int
  body :: string
  informational :: "int list"
  superfluous :: nat

definition Header_Get :: "(string \<rightharpoonup> string list) \<Rightarrow> string \<Rightarrow> string" where
  "Header_Get h k = (case h k of None \<Rightarrow> [] | Some [] \<Rightarrow> [] | Some (v # _) \<Rightarrow> v)"

definition Header_Set ::
  "(string \<rightharpoonup> string list) \<Rightarrow> string \<Rightarrow> string \<Rightarrow> (string \<rightharpoonup> string list)" where
  "Header_Set h k v = h(k \<mapsto> [v])"

definition Header_Del :: "(string \<rightharpoonup> string list) \<Rightarrow> string \<Rightarrow> (string \<rightharpoonup> string list)" where
  "Header_Del h k = h(k := None)"

text \<open>
  \<open>strconv.ParseInt(s, 10, 64)\<close>, with which the server reads a declared
  \<open>Content-Length\<close>: an optional sign, then one or more decimal digits, and a value
  within the range of int64; anything else is an error (\<open>None\<close>).
\<close>

definition isDigit :: "char \<Rightarrow> bool" where
  "isDigit c = (c \<in> set ''0123456789'')"

definition digits_value :: "string \<Rightarrow> int" where
  "digits_value ds = foldl (\<lambda>n c. 10 * n + (of_char c - 48)) 0 ds"

definition ParseInt :: "string \<Rightarrow> int option" where
  "ParseInt s =
     (case s of
        [] \<Rightarrow> None
      | c # rest \<Rightarrow>
          (let neg = (c = CHR ''-'');
               ds = (if c = CHR ''+'' \<or> c = CHR ''-'' then rest else s)
           in if ds = [] \<or> \<not> list_all isDigit ds then None
              else if \<not> neg \<and> digits_value ds \<ge> 2 ^ 63 then None
              else if neg \<and> digits_value ds > 2 ^ 63 then None
              else Some (if neg then - digits_value ds else digits_value ds)))"

text \<open>
  \<open>response.WriteHeader\<close>. After the final status line a further call is only logged as
  superfluous. Otherwise \<open>checkWriteHeaderCode\<close> panics on a code outside 100..999; a code
  in 100..199 other than 101 is sent as an informational header and leaves the response
  open; any other code is final: it fixes the status and, when the header map declares a
  \<open>Content-Length\<close> that parses to a non-negative number, the content length (an invalid
  declaration is deleted from the map). The result is \<open>Inl\<close> of the panic value or
  \<open>Inr\<close> of the new response.
\<close>

definition response_WriteHeader :: "int \<Rightarrow> response \<Rightarrow> any + response" where
  "response_WriteHeader code rs =
     (if wroteHeader rs then Inr (rs\<lparr>superfluous := superfluous rs + 1\<rparr>)
      else if code < 100 \<or> code > 999
        then Inl (AStr (''invalid WriteHeader code '' @ Sprintf_d code))
      else if code \<ge> 100 \<and> code \<le> 199 \<and> code \<noteq> 101
        then Inr (rs\<lparr>informational := informational rs @ [code]\<rparr>)
      else
        (let rs = rs\<lparr>wroteHeader := True, status := code\<rparr>;
             cl = Header_Get (header rs) ''Content-Length''
         in if cl \<noteq> [] then
              (case ParseInt cl of
                 Some v \<Rightarrow>
                   if v \<ge> 0 then Inr (rs\<lparr>contentLength := v\<rparr>)
                   else Inr (rs\<lparr>header := Header_Del (header rs) ''Content-Length''\<rparr>)
               | None \<Rightarrow> Inr (rs\<lparr>header := Header_Del (header rs) ''Content-Length''\<rparr>))
            else Inr rs))"

definition bodyAllowedForStatus :: "int \<Rightarrow> bool" where
  "bodyAllowedForStatus st =
     (if st \<ge> 100 \<and> st \<le> 199 then False
      else if st = 204 then False
      else if st = 304 then False
      else True)"

text \<open>
  \<open>response.Write\<close>. Status 200 is sent first when no final status was sent (200 is a
  valid code, so this call does not panic). No bytes are accepted when the status allows
  no body (\<open>ErrBodyNotAllowed\<close>) or when the bytes offered so far exceed the content
  length (\<open>ErrContentLength\<close>); the bytes of the answer to a \<open>HEAD\<close> request are accepted
  and then discarded. The callers in this repository ignore the error that is returned.
\<close>

definition response_Write :: "string \<Rightarrow> response \<Rightarrow> response" where
  "response_Write b rs =
     (let rs = (if wroteHeader rs then rs
                else (case response_WriteHeader 200 rs of Inr rs' \<Rightarrow> rs' | Inl e \<Rightarrow> rs))
      in if length b = 0 then rs
         else if \<not> bodyAllowedForStatus (status rs) then rs
         else
           (let rs = rs\<lparr>written := written rs + int (length b)\<rparr>
            in if contentLength rs \<noteq> - 1 \<and> written rs > contentLength rs then rs
               else if reqMethod rs = ''HEAD'' then rs
               else rs\<lparr>body := body rs @ b\<rparr>))"

text \<open>
  \<open>type Metrics struct\<close>: the four Prometheus collectors. The counter vector maps the
  label values (method, path, status) to a count, the histogram keeps its observations
  (labels (method, path) and the observed duration, in nanoseconds), the gauge and the
  panic counter are numbers of requests (integers here, float64 in Prometheus).
\<close>

record Metrics =
  RequestsTotal :: "string \<times> string \<times> string \<Rightarrow> nat"
  RequestDuration :: "((string \<times> string) \<times> int) list"
  RequestsInFlight :: int
  PanicRecoveries :: nat

text \<open>
  Everything a handler can change while it serves one request: the response, the
  \<open>statusCode\<close> field of every \<open>responseWriter\<close> wrapper allocated so far (by address),
  the events handed to the logger, the \<open>Metrics\<close> structs (by address), the UUIDs that
  \<open>uuid.New()\<close> returns (in order), the monotonic clock in nanoseconds, the stack that
  \<open>runtime.Stack\<close> would print, and the attributes set on the recording span.
\<close>

record world =
  resp :: response
  statusCode :: "nat \<Rightarrow> int"
  allocated :: nat
  logs :: "Event list"
  registry :: "nat \<Rightarrow> Metrics"
  uuids :: "nat \<Rightarrow> 128 word"
  uuid_next :: nat
  clock :: int
  goroutine_stack :: string
  span_attributes :: "(string \<times> any) list"

record request =
  Method :: string
  Path :: string
  Header :: "string \<rightharpoonup> string list"
  RemoteAddr :: string
  Ctx :: Context

definition UserAgent :: "request \<Rightarrow> string" where
  "UserAgent r = Header_Get (Header r) ''User-Agent''"

text \<open>
  A handler either returns or panics with a value, and leaves a state behind in both cases.
  A writer is the connection's response or a \<open>responseWriter\<close> wrapper (its address and
  the writer it embeds). \<open>*Metrics\<close> is an optional address (\<open>None\<close> is the nil pointer)
  of a fully built struct.
\<close>

datatype outcome = Return | Panic any

datatype writer = Conn | Wrapper nat writer

type_synonym handler = "writer \<Rightarrow> request \<Rightarrow> world \<Rightarrow> outcome \<times> world"

text \<open>
  \<open>type responseWriter struct { http.ResponseWriter; statusCode int }\<close>: only
  \<open>WriteHeader\<close> is overridden; \<open>Header\<close> and \<open>Write\<close> are the embedded writer's.
  \<open>newResponseWriter\<close> is the allocation \<open>&responseWriter{ResponseWriter: w, statusCode: code}\<close>
  and returns the new address.
\<close>

definition newResponseWriter :: "int \<Rightarrow> world \<Rightarrow> nat \<times> world" where
  "newResponseWriter code s =
     (allocated s,
      s\<lparr>statusCode := (statusCode s)(allocated s := code), allocated := allocated s + 1\<rparr>)"

fun WriteHeader :: "writer \<Rightarrow> int \<Rightarrow> world \<Rightarrow> outcome \<times> world" where
  "WriteHeader Conn code s =
     (case response_WriteHeader code (resp s) of
        Inl e \<Rightarrow> (Panic e, s)
      | Inr rs \<Rightarrow> (Return, s\<lparr>resp := rs\<rparr>))"
| "WriteHeader (Wrapper a w) code s =
     WriteHeader w code (s\<lparr>statusCode := (statusCode s)(a := code)\<rparr>)"

fun Write :: "writer \<Rightarrow> string \<Rightarrow> world \<Rightarrow> world" where
  "Write Conn b s = s\<lparr>resp := response_Write b (resp s)\<rparr>"
| "Write (Wrapper a w) b s = Write w b s"

fun w_Header_Set :: "writer \<Rightarrow> string \<Rightarrow> string \<Rightarrow> world \<Rightarrow> world" where
  "w_Header_Set Conn k v s = s\<lparr>resp := (resp s)\<lparr>header := Header_Set (header (resp s)) k v\<rparr>\<rparr>"
| "w_Header_Set (Wrapper a w) k v s = w_Header_Set w k v s"

fun w_Header_Del :: "writer \<Rightarrow> string \<Rightarrow> world \<Rightarrow> world" where
  "w_Header_Del Conn k s = s\<lparr>resp := (resp s)\<lparr>header := Header_Del (header (resp s)) k\<rparr>\<rparr>"
| "w_Header_Del (Wrapper a w) k s = w_Header_Del w k s"

text \<open>
  \<open>http.Error(w, error, code)\<close> (net/http as of Go 1.23): deletes \<open>Content-Length\<close>
  from the header map, sets the two headers of a plain-text error, calls
  \<open>w.WriteHeader(code)\<close> and prints the text and a newline to \<open>w\<close>. A panic of
  \<open>WriteHeader\<close> ends it.
\<close>

definition http_Error :: "writer \<Rightarrow> string \<Rightarrow> int \<Rightarrow> world \<Rightarrow> outcome \<times> world" where
  "http_Error w err code s =
     (let s = w_Header_Del w ''Content-Length'' s;
          s = w_Header_Set w ''Content-Type'' ''text/plain; charset=utf-8'' s;
          s = w_Header_Set w ''X-Content-Type-Options'' ''nosniff'' s
      in case WriteHeader w code s of
           (Panic e, s) \<Rightarrow> (Panic e, s)
         | (Return, s) \<Rightarrow> (Return, Write w (err @ [CHR 0x0A]) s))"

definition Msg :: "Level \<Rightarrow> zerolog_Logger \<Rightarrow> string \<Rightarrow> world \<Rightarrow> world" where
  "Msg lvl lg m s = s\<lparr>logs := logs s @ [\<lparr>level = lvl, msg = m, event_fields = lg\<rparr>]\<rparr>"

definition uuid_New :: "world \<Rightarrow> 128 word \<times> world" where
  "uuid_New s = (uuids s (uuid_next s), s\<lparr>uuid_next := uuid_next s + 1\<rparr>)"

text \<open>\<open>time.Duration.Milliseconds\<close>: integer division by 10^6, truncating towards zero.\<close>

definition Milliseconds :: "int \<Rightarrow> int" where
  "Milliseconds d = sgn d * (\<bar>d\<bar> div 1000000)"

definition SetAttributes :: "Context \<Rightarrow> (string \<times> any) list \<Rightarrow> world \<Rightarrow> world" where
  "SetAttributes c kv s =
     (if recording c then s\<lparr>span_attributes := span_attributes s @ kv\<rparr> else s)"

definition RequestsInFlight_Inc :: "nat \<Rightarrow> world \<Rightarrow> world" where
  "RequestsInFlight_Inc a s =
     s\<lparr>registry := (registry s)
          (a := (registry s a)\<lparr>RequestsInFlight := RequestsInFlight (registry s a) + 1\<rparr>)\<rparr>"

definition RequestsInFlight_Dec :: "nat \<Rightarrow> world \<Rightarrow> world" where
  "RequestsInFlight_Dec a s =
     s\<lparr>registry := (registry s)
          (a := (registry s a)\<lparr>RequestsInFlight := RequestsInFlight (registry s a) - 1\<rparr>)\<rparr>"

definition RequestsTotal_Inc :: "nat \<Rightarrow> string \<times> string \<times> string \<Rightarrow> world \<Rightarrow> world" where
  "RequestsTotal_Inc a lbl s =
     s\<lparr>registry := (registry s)
          (a := (registry s a)\<lparr>RequestsTotal :=
                  (RequestsTotal (registry s a))(lbl := RequestsTotal (registry s a) lbl + 1)\<rparr>)\<rparr>"

definition RequestDuration_Observe :: "nat \<Rightarrow> string \<times> string \<Rightarrow> int \<Rightarrow> world \<Rightarrow> world" where
  "RequestDuration_Observe a lbl d s =
     s\<lparr>registry := (registry s)
          (a := (registry s a)\<lparr>RequestDuration := RequestDuration (registry s a) @ [(lbl, d)]\<rparr>)\<rparr>"

definition PanicRecoveries_Inc :: "nat \<Rightarrow> world \<Rightarrow> world" where
  "PanicRecoveries_Inc a s =
     s\<lparr>registry := (registry s)
          (a := (registry s a)\<lparr>PanicRecoveries := PanicRecoveries (registry s a) + 1\<rparr>)\<rparr>"

section \<open>The identifier resolver (pkg/logger, \<open>ExtractTraceContext\<close>)\<close>

text \<open>
  An empty request id is replaced by a new UUID, an empty trace id by the first 16
  characters of a new UUID, and the span id is always the first 8 characters of a new UUID.
  The slices \<open>[:16]\<close> and \<open>[:8]\<close> are within the 36 characters of the UUID text.
\<close>

definition ExtractTraceContext ::
  "Context \<Rightarrow> string \<Rightarrow> string \<Rightarrow> world \<Rightarrow> Context \<times> world" where
  "ExtractTraceContext c requestID traceID s =
     (let (requestID, s) =
            (if requestID = [] then (let (u, s') = uuid_New s in (UUID_String u, s'))
             else (requestID, s));
          (traceID, s) =
            (if traceID = [] then (let (u, s') = uuid_New s in (take 16 (UUID_String u), s'))
             else (traceID, s));
          (u, s) = uuid_New s;
          spanID = take 8 (UUID_String u);
          c = WithValue c RequestIDKey requestID;
          c = WithValue c TraceIDKey traceID;
          c = WithValue c SpanIDKey spanID
      in (c, s))"

section \<open>The middleware (pkg/middleware)\<close>

text \<open>
  \<open>Logging\<close>: resolves the identifiers from the two inbound headers, stamps the response
  with the identifiers of the resolved context, runs the next handler on a wrapped writer
  and logs the completed request. A panic of the next handler passes through.
\<close>

definition Logging :: "Logger \<Rightarrow> handler \<Rightarrow> handler" where
  "Logging log next w r s =
     (let start = clock s;
          requestID = Header_Get (Header r) ''X-Request-ID'';
          traceID = Header_Get (Header r) ''X-Trace-ID'';
          (c, s) = ExtractTraceContext (Ctx r) requestID traceID s;
          r = r\<lparr>Ctx := c\<rparr>;
          s = w_Header_Set w ''X-Request-ID'' (GetRequestID c) s;
          s = w_Header_Set w ''X-Trace-ID'' (GetTraceID c) s;
          (rw, s) = newResponseWriter 200 s
      in case next (Wrapper rw w) r s of
           (Panic err, s) \<Rightarrow> (Panic err, s)
         | (Return, s) \<Rightarrow>
             (let duration = clock s - start;
                  logCtx = WithFields log c
                    [(''method'', AStr (Method r)),
                     (''path'', AStr (Path r)),
                     (''status'', AInt (statusCode s rw)),
                     (''duration_ms'', AInt (Milliseconds duration)),
                     (''remote_addr'', AStr (RemoteAddr r)),
                     (''user_agent'', AStr (UserAgent r))]
              in (Return, Msg InfoLevel logCtx ''HTTP request completed'' s)))"

text \<open>
  \<open>MetricsMiddleware\<close>: \<open>m.RequestsInFlight.Inc()\<close> on entry and, deferred,
  \<open>m.RequestsInFlight.Dec()\<close> on every exit; the counter and the histogram are recorded
  only after the next handler has returned. Dereferencing a nil \<open>m\<close> panics before anything
  is counted. (\<open>WithLabelValues\<close> of the Prometheus client panics on a label value that
  is not valid UTF-8; the text encoding of the path is not modelled.)
\<close>

definition MetricsMiddleware :: "nat option \<Rightarrow> handler \<Rightarrow> handler" where
  "MetricsMiddleware m next w r s =
     (let start = clock s;
          (rw, s) = newResponseWriter 200 s
      in case m of
           None \<Rightarrow> (Panic (AErr ''runtime error: invalid memory address or nil pointer dereference''), s)
         | Some a \<Rightarrow>
             (let s = RequestsInFlight_Inc a s
              in case next (Wrapper rw w) r s of
                   (Panic err, s) \<Rightarrow> (Panic err, RequestsInFlight_Dec a s)
                 | (Return, s) \<Rightarrow>
                     (let duration = clock s - start;
                          s = RequestsTotal_Inc a (Method r, Path r, Sprintf_d (statusCode s rw)) s;
                          s = RequestDuration_Observe a (Method r, Path r) duration s
                      in (Return, RequestsInFlight_Dec a s))))"

text \<open>
  \<open>Recovery\<close>: the deferred function recovers a panic of the next handler, logs it at
  error level with at most 4096 bytes of stack, increments the panic counter unless \<open>m\<close>
  is nil, and calls \<open>http.Error\<close> on its own writer; the handler returns when the
  deferred function does. The request \<open>r\<close> of the deferred function is the one
  \<open>Recovery\<close> received.
\<close>

definition Recovery :: "Logger \<Rightarrow> nat option \<Rightarrow> handler \<Rightarrow> handler" where
  "Recovery log m next w r s =
     (case next w r s of
        (Return, s) \<Rightarrow> (Return, s)
      | (Panic err, s) \<Rightarrow>
          (let stackTrace = take 4096 (goroutine_stack s);
               panicLog = WithFields log (Ctx r)
                 [(''method'', AStr (Method r)),
                  (''path'', AStr (Path r)),
                  (''panic'', err),
                  (''stacktrace'', AStr stackTrace)];
               s = Msg ErrorLevel panicLog ''Panic recovered'' s;
               s = (case m of None \<Rightarrow> s | Some a \<Rightarrow> PanicRecoveries_Inc a s)
           in http_Error w ''Internal Server Error'' 500 s))"

text \<open>
  \<open>TracedLogging\<close>, in the three parts of its body. Lines 202 to 218 resolve the
  identifiers: the trace id of the active span comes first and the inbound \<open>X-Trace-ID\<close>
  header is the fall-back; the context comes from \<open>ExtractTraceContext\<close>, with the span
  id of the active span in place of the generated one.
\<close>

definition TracedLogging_resolve :: "request \<Rightarrow> world \<Rightarrow> (string \<times> string \<times> Context) \<times> world" where
  "TracedLogging_resolve r s =
     (let otelTraceID = tracing_GetTraceID (Ctx r);
          otelSpanID = tracing_GetSpanID (Ctx r);
          otelTraceID = (if otelTraceID = [] then Header_Get (Header r) ''X-Trace-ID''
                         else otelTraceID);
          requestID = Header_Get (Header r) ''X-Request-ID'';
          (c, s) = ExtractTraceContext (Ctx r) requestID otelTraceID s;
          c = (if otelSpanID \<noteq> [] then WithSpanID c otelSpanID else c)
      in ((otelTraceID, otelSpanID, c), s))"

text \<open>
  Lines 222 to 227 set the response headers: \<open>X-Request-ID\<close> from the context,
  \<open>X-Trace-ID\<close> and \<open>X-Span-ID\<close> from the local variables \<open>otelTraceID\<close> and
  \<open>otelSpanID\<close>.
\<close>

definition TracedLogging_stamp :: "writer \<Rightarrow> string \<Rightarrow> string \<Rightarrow> Context \<Rightarrow> world \<Rightarrow> world" where
  "TracedLogging_stamp w otelTraceID otelSpanID c s =
     (let s = w_Header_Set w ''X-Request-ID'' (GetRequestID c) s;
          s = w_Header_Set w ''X-Trace-ID'' otelTraceID s
      in if otelSpanID \<noteq> [] then w_Header_Set w ''X-Span-ID'' otelSpanID s else s)"

text \<open>
  The whole middleware: resolve, stamp, run the next handler on a wrapped writer with the
  resolved context, then set the span attributes and log the completed request with the
  fields of the context and, again, \<open>trace_id\<close> and \<open>span_id\<close> from the local variables.
\<close>

definition TracedLogging :: "Logger \<Rightarrow> handler \<Rightarrow> handler" where
  "TracedLogging log next w r s =
     (let start = clock s;
          ((otelTraceID, otelSpanID, c), s) = TracedLogging_resolve r s;
          r = r\<lparr>Ctx := c\<rparr>;
          s = TracedLogging_stamp w otelTraceID otelSpanID c s;
          (rw, s) = newResponseWriter 200 s
      in case next (Wrapper rw w) r s of
           (Panic err, s) \<Rightarrow> (Panic err, s)
         | (Return, s) \<Rightarrow>
             (let duration = clock s - start;
                  s = SetAttributes (Ctx r)
                        [(''http.status_code'', AInt (statusCode s rw)),
                         (''http.duration_ms'', AInt (Milliseconds duration))] s;
                  tracedLog = WithFields log c
                    [(''method'', AStr (Method r)),
                     (''path'', AStr (Path r)),
                     (''status'', AInt (statusCode s rw)),
                     (''duration_ms'', AInt (Milliseconds duration)),
                     (''remote_addr'', AStr (RemoteAddr r)),
                     (''user_agent'', AStr (UserAgent r)),
                     (''trace_id'', AStr otelTraceID),
                     (''span_id'', AStr otelSpanID)]
              in (Return, Msg InfoLevel tracedLog ''HTTP request completed'' s)))"

section \<open>Example requests and handlers\<close>

text \<open>
  A logger as \<open>logger.New\<close> builds it, a fresh state whose source of UUIDs
  returns \<open>01000000-..\<close>, \<open>02000000-..\<close> and so on, a request without identifiers and
  without an active span, and handlers in the style of those of main.go: one that answers,
  one that answers 404, one that panics at once, one that panics after it has sent the
  status line and part of the body, and one that panics after it has sent status 204.
\<close>

definition appLogger :: Logger where
  "appLogger = \<lparr>zlog = [(''app'', AStr ''go-api''), (''version'', AStr ''1.0.0'')]\<rparr>"

definition fresh_response :: response where
  "fresh_response =
     \<lparr>header = Map.empty, reqMethod = ''GET'', wroteHeader = False, status = 0,
      contentLength = - 1, written = 0, body = [], informational = [], superfluous = 0\<rparr>"

definition example_uuid :: "nat \<Rightarrow> 128 word" where
  "example_uuid n = push_bit 120 (of_nat n + 1)"

definition world0 :: world where
  "world0 =
     \<lparr>resp = fresh_response,
      statusCode = (\<lambda>_. 0),
      allocated = 0,
      logs = [],
      registry = (\<lambda>_. \<lparr>RequestsTotal = (\<lambda>_. 0), RequestDuration = [],
                          RequestsInFlight = 0, PanicRecoveries = 0\<rparr>),
      uuids = example_uuid,
      uuid_next = 0,
      clock = 0,
      goroutine_stack = ''goroutine 1 [running]:'',
      span_attributes = []\<rparr>"

definition background :: Context where
  "background = \<lparr>vals = Map.empty, span = \<lparr>TraceID = 0, SpanID = 0\<rparr>, recording = False\<rparr>"

definition request0 :: request where
  "request0 =
     \<lparr>Method = ''GET'', Path = ''/api/hello'', Header = Map.empty,
      RemoteAddr = ''10.0.0.1:4711'', Ctx = background\<rparr>"

definition helloHandler :: handler where
  "helloHandler w r s =
     (case WriteHeader w 200 s of
        (Panic e, s) \<Rightarrow> (Panic e, s)
      | (Return, s) \<Rightarrow> (Return, Write w ''Hello, World!'' s))"

definition notFoundHandler :: handler where
  "notFoundHandler w r s = WriteHeader w 404 s"

definition panicHandler :: handler where
  "panicHandler w r s = (Panic (AStr ''boom''), s)"

definition partialHandler :: handler where
  "partialHandler w r s =
     (case WriteHeader w 200 s of
        (Panic e, s) \<Rightarrow> (Panic e, s)
      | (Return, s) \<Rightarrow> (Panic (AStr ''boom''), Write w ''partial'' s))"

definition noContentHandler :: handler where
  "noContentHandler w r s =
     (case WriteHeader w 204 s of
        (Panic e, s) \<Rightarrow> (Panic e, s)
      | (Return, s) \<Rightarrow> (Panic (AStr ''boom''), s))"

text \<open>
  Requests for the resolver: one with the inbound header \<open>X-Request-ID: req-42\<close> and no
  span, and one with the inbound header \<open>X-Trace-ID: abc\<close> under an active, recording
  span, and the same without the span. \<open>resolved\<close> is the context that
  \<open>TracedLogging\<close> hands to the next handler, \<open>stamped\<close> the state after it has set
  the response headers, and \<open>downstream\<close> the request of a simulated next hop whose
  inbound headers are those response headers and whose context has no span of its own.
\<close>

definition request42 :: request where
  "request42 = request0\<lparr>Header := [''X-Request-ID'' \<mapsto> [''req-42'']]\<rparr>"

definition traced_request :: request where
  "traced_request =
     request0\<lparr>Header := [''X-Trace-ID'' \<mapsto> [''abc'']],
              Ctx := background\<lparr>span := \<lparr>TraceID = 1, SpanID = 1\<rparr>, recording := True\<rparr>\<rparr>"

definition untraced_request :: request where
  "untraced_request = request0\<lparr>Header := [''X-Trace-ID'' \<mapsto> [''abc'']]\<rparr>"

definition resolved :: "request \<Rightarrow> world \<Rightarrow> Context" where
  "resolved r s = snd (snd (fst (TracedLogging_resolve r s)))"

definition stamped :: "request \<Rightarrow> world \<Rightarrow> world" where
  "stamped r s =
     (let ((otelTraceID, otelSpanID, c), s) = TracedLogging_resolve r s
      in TracedLogging_stamp Conn otelTraceID otelSpanID c s)"

definition downstream :: "request \<Rightarrow> world \<Rightarrow> request" where
  "downstream r s = r\<lparr>Header := header (resp (stamped r s)), Ctx := background\<rparr>"

section \<open>Middleware composition (pkg/middleware, \<open>Chain\<close>)\<close>

text \<open>
  \<^verbatim>\<open>
  func Chain(middlewares ...func(http.Handler) http.Handler) func(http.Handler) http.Handler {
      return func(final http.Handler) http.Handler {
          for i := len(middlewares) - 1; i >= 0; i-- {
              final = middlewares[i](final)
          }
          return final
      }
  }
  \<close>
  The loop counts a signed index down from \<open>len - 1\<close>. An index outside the slice is a
  run-time panic in Go; the model returns \<open>None\<close> there, so that the theorem about
  \<open>Chain\<close> also says that the loop never leaves the slice.
\<close>

function Chain_loop :: "('h \<Rightarrow> 'h) list \<Rightarrow> int \<Rightarrow> 'h \<Rightarrow> 'h option" where
  "Chain_loop middlewares i final =
     (if i \<ge> 0 then
        (if nat i < length middlewares
         then Chain_loop middlewares (i - 1) ((middlewares ! nat i) final)
         else None)
      else Some final)"
  by pat_completeness auto
termination
  by (relation "measure (\<lambda>(ms, i, f). nat (i + 1))") auto

definition Chain :: "('h \<Rightarrow> 'h) list \<Rightarrow> 'h \<Rightarrow> 'h option" where
  "Chain middlewares final = Chain_loop middlewares (int (length middlewares) - 1) final"

section \<open>Properties of the composer\<close>

lemma Chain_loop_prefix:
  "Chain_loop (ms @ rest) (int (length ms) - 1) final = Some (foldr (\<lambda>m h. m h) ms final)"
proof (induction ms arbitrary: final rest rule: rev_induct)
  case Nil
  show ?case by (subst Chain_loop.simps) simp
next
  case (snoc m ms)
  have "Chain_loop ((ms @ [m]) @ rest) (int (length (ms @ [m])) - 1) final
        = Chain_loop (ms @ ([m] @ rest)) (int (length ms) - 1) (m final)"
    by (subst Chain_loop.simps) (simp add: nth_append)
  also have "\<dots> = Some (foldr (\<lambda>m h. m h) ms (m final))"
    by (rule snoc.IH)
  finally show ?case by simp
qed

text \<open>
  C7. For every list of interceptors \<open>m1 .. mn\<close> and every terminal handler \<open>t\<close>,
  \<open>Chain [m1, .., mn] t\<close> returns the nested application \<open>m1 (m2 (.. (mn t)))\<close>
  (the right fold of application over the list), and \<open>Chain\<close> of the empty list returns
  the terminal handler itself.
\<close>

theorem Chain_nested:
  "Chain ms t = Some (foldr (\<lambda>m h. m h) ms t) \<and> Chain [] t = Some t"
proof
  show "Chain ms t = Some (foldr (\<lambda>m h. m h) ms t)"
    using Chain_loop_prefix [of ms "[]" t] by (simp add: Chain_def)
  show "Chain [] t = Some t"
    using Chain_loop_prefix [of "[]" "[]" t] by (simp add: Chain_def)
qed

section \<open>Writers, the fallback response and the logger\<close>

lemma range_Interface_append: "range_Interface event fs = event @ fs"
  by (induction event fs rule: range_Interface.induct) simp_all

lemma WithFields_append: "WithFields l c fs = WithContext l c @ fs"
  by (simp add: WithFields_def range_Interface_append)

lemma fst_WriteHeader:
  "fst (WriteHeader w code s) =
     (case response_WriteHeader code (resp s) of Inl e \<Rightarrow> Panic e | Inr rs \<Rightarrow> Return)"
  by (induction w arbitrary: s) (simp_all split: sum.splits)

lemma resp_WriteHeader:
  "resp (snd (WriteHeader w code s)) =
     (case response_WriteHeader code (resp s) of Inl e \<Rightarrow> resp s | Inr rs \<Rightarrow> rs)"
  by (induction w arbitrary: s) (simp_all split: sum.splits)

lemma logs_WriteHeader: "logs (snd (WriteHeader w code s)) = logs s"
  by (induction w arbitrary: s) (simp_all split: sum.splits)

lemma registry_WriteHeader: "registry (snd (WriteHeader w code s)) = registry s"
  by (induction w arbitrary: s) (simp_all split: sum.splits)

lemma resp_Write: "resp (Write w b s) = response_Write b (resp s)"
  by (induction w) simp_all

lemma logs_Write: "logs (Write w b s) = logs s"
  by (induction w) simp_all

lemma registry_Write: "registry (Write w b s) = registry s"
  by (induction w) simp_all

lemma resp_w_Header_Set:
  "resp (w_Header_Set w k v s) = (resp s)\<lparr>header := Header_Set (header (resp s)) k v\<rparr>"
  by (induction w) simp_all

lemma logs_w_Header_Set: "logs (w_Header_Set w k v s) = logs s"
  by (induction w) simp_all

lemma registry_w_Header_Set: "registry (w_Header_Set w k v s) = registry s"
  by (induction w) simp_all

lemma resp_w_Header_Del:
  "resp (w_Header_Del w k s) = (resp s)\<lparr>header := Header_Del (header (resp s)) k\<rparr>"
  by (induction w) simp_all

lemma logs_w_Header_Del: "logs (w_Header_Del w k s) = logs s"
  by (induction w) simp_all

lemma registry_w_Header_Del: "registry (w_Header_Del w k s) = registry s"
  by (induction w) simp_all

lemma response_WriteHeader_sent:
  "wroteHeader rs \<Longrightarrow> response_WriteHeader code rs = Inr (rs\<lparr>superfluous := superfluous rs + 1\<rparr>)"
  by (simp add: response_WriteHeader_def)

lemma response_WriteHeader_500:
  "\<not> wroteHeader rs \<Longrightarrow> Header_Get (header rs) ''Content-Length'' = [] \<Longrightarrow>
   response_WriteHeader 500 rs = Inr (rs\<lparr>wroteHeader := True, status := 500\<rparr>)"
  by (simp add: response_WriteHeader_def Let_def)

text \<open>The header map with which \<open>http.Error\<close> calls \<open>WriteHeader\<close>.\<close>

lemma Error_headers_no_Content_Length:
  "Header_Get (Header_Set (Header_Set (Header_Del h ''Content-Length'') ''Content-Type'' v)
      ''X-Content-Type-Options'' v') ''Content-Length'' = []"
  by (simp add: Header_Get_def Header_Set_def Header_Del_def)

lemma http_Error_unfold:
  "http_Error w e code s =
     (case WriteHeader w code
        (w_Header_Set w ''X-Content-Type-Options'' ''nosniff''
          (w_Header_Set w ''Content-Type'' ''text/plain; charset=utf-8''
            (w_Header_Del w ''Content-Length'' s))) of
        (Panic x, s') \<Rightarrow> (Panic x, s')
      | (Return, s') \<Rightarrow> (Return, Write w (e @ [CHR 0x0A]) s'))"
  by (simp add: http_Error_def Let_def)

lemma logs_http_Error: "logs (snd (http_Error w e code s)) = logs s"
proof -
  let ?s0 = "w_Header_Set w ''X-Content-Type-Options'' ''nosniff''
          (w_Header_Set w ''Content-Type'' ''text/plain; charset=utf-8''
            (w_Header_Del w ''Content-Length'' s))"
  have "logs (snd (WriteHeader w code ?s0)) = logs s"
    by (simp add: logs_WriteHeader logs_w_Header_Set logs_w_Header_Del)
  then show ?thesis
    unfolding http_Error_unfold
    by (cases "WriteHeader w code ?s0") (auto simp add: logs_Write split: outcome.splits)
qed

lemma registry_http_Error: "registry (snd (http_Error w e code s)) = registry s"
proof -
  let ?s0 = "w_Header_Set w ''X-Content-Type-Options'' ''nosniff''
          (w_Header_Set w ''Content-Type'' ''text/plain; charset=utf-8''
            (w_Header_Del w ''Content-Length'' s))"
  have "registry (snd (WriteHeader w code ?s0)) = registry s"
    by (simp add: registry_WriteHeader registry_w_Header_Set registry_w_Header_Del)
  then show ?thesis
    unfolding http_Error_unfold
    by (cases "WriteHeader w code ?s0") (auto simp add: registry_Write split: outcome.splits)
qed

lemma http_Error_500:
  "fst (http_Error w e 500 s) = Return"
  "resp (snd (http_Error w e 500 s)) =
     response_Write (e @ [CHR 0x0A])
       (if wroteHeader (resp s)
        then (resp s)\<lparr>header := Header_Set (Header_Set (Header_Del (header (resp s))
                 ''Content-Length'') ''Content-Type'' ''text/plain; charset=utf-8'')
                 ''X-Content-Type-Options'' ''nosniff'',
               superfluous := superfluous (resp s) + 1\<rparr>
        else (resp s)\<lparr>header := Header_Set (Header_Set (Header_Del (header (resp s))
                 ''Content-Length'') ''Content-Type'' ''text/plain; charset=utf-8'')
                 ''X-Content-Type-Options'' ''nosniff'',
               wroteHeader := True, status := 500\<rparr>)"
proof -
  let ?s0 = "w_Header_Set w ''X-Content-Type-Options'' ''nosniff''
          (w_Header_Set w ''Content-Type'' ''text/plain; charset=utf-8''
            (w_Header_Del w ''Content-Length'' s))"
  let ?h = "Header_Set (Header_Set (Header_Del (header (resp s))
                 ''Content-Length'') ''Content-Type'' ''text/plain; charset=utf-8'')
                 ''X-Content-Type-Options'' ''nosniff''"
  have r0: "resp ?s0 = (resp s)\<lparr>header := ?h\<rparr>"
    by (simp add: resp_w_Header_Set resp_w_Header_Del)
  have wh: "response_WriteHeader 500 (resp ?s0) =
      Inr (if wroteHeader (resp s)
           then (resp s)\<lparr>header := ?h, superfluous := superfluous (resp s) + 1\<rparr>
           else (resp s)\<lparr>header := ?h, wroteHeader := True, status := 500\<rparr>)"
    unfolding r0
    by (simp add: response_WriteHeader_sent response_WriteHeader_500
        Error_headers_no_Content_Length)
  have f: "fst (WriteHeader w 500 ?s0) = Return"
    by (simp add: fst_WriteHeader wh)
  have r: "resp (snd (WriteHeader w 500 ?s0)) =
      (if wroteHeader (resp s)
           then (resp s)\<lparr>header := ?h, superfluous := superfluous (resp s) + 1\<rparr>
           else (resp s)\<lparr>header := ?h, wroteHeader := True, status := 500\<rparr>)"
    by (simp add: resp_WriteHeader wh)
  obtain s' where w: "WriteHeader w 500 ?s0 = (Return, s')"
    using f by (cases "WriteHeader w 500 ?s0") simp
  show "fst (http_Error w e 500 s) = Return"
    unfolding http_Error_unfold by (simp add: w)
  show "resp (snd (http_Error w e 500 s)) =
     response_Write (e @ [CHR 0x0A])
       (if wroteHeader (resp s)
        then (resp s)\<lparr>header := ?h, superfluous := superfluous (resp s) + 1\<rparr>
        else (resp s)\<lparr>header := ?h, wroteHeader := True, status := 500\<rparr>)"
    unfolding http_Error_unfold using r by (simp add: w resp_Write)
qed

lemma http_Error_fresh:
  assumes "\<not> wroteHeader (resp s)"
  shows "wroteHeader (resp (snd (http_Error w e 500 s)))"
    and "status (resp (snd (http_Error w e 500 s))) = 500"
    and "superfluous (resp (snd (http_Error w e 500 s))) = superfluous (resp s)"
    and "reqMethod (resp s) \<noteq> ''HEAD'' \<Longrightarrow> contentLength (resp s) = - 1 \<Longrightarrow>
         body (resp (snd (http_Error w e 500 s))) = body (resp s) @ e @ [CHR 0x0A]"
  using assms
  by (simp_all add: http_Error_500 response_Write_def Let_def bodyAllowedForStatus_def)

lemma http_Error_sent:
  assumes "wroteHeader (resp s)"
  shows "status (resp (snd (http_Error w e 500 s))) = status (resp s)"
    and "superfluous (resp (snd (http_Error w e 500 s))) = superfluous (resp s) + 1"
    and "bodyAllowedForStatus (status (resp s)) \<Longrightarrow> reqMethod (resp s) \<noteq> ''HEAD'' \<Longrightarrow>
         contentLength (resp s) = - 1 \<or>
           written (resp s) + int (length e) + 1 \<le> contentLength (resp s) \<Longrightarrow>
         body (resp (snd (http_Error w e 500 s))) = body (resp s) @ e @ [CHR 0x0A]"
    and "\<not> bodyAllowedForStatus (status (resp s)) \<or> reqMethod (resp s) = ''HEAD'' \<or>
           (contentLength (resp s) \<noteq> - 1 \<and>
            written (resp s) + int (length e) + 1 > contentLength (resp s)) \<Longrightarrow>
         body (resp (snd (http_Error w e 500 s))) = body (resp s)"
  using assms
  by (auto simp add: http_Error_500 response_Write_def Let_def)


lemma length_fallback: "int (length ''Internal Server Error'') + 1 = 22"
  by simp

lemma Recovery_Panic:
  assumes "nxt w r s = (Panic err, s1)"
  shows "Recovery log m nxt w r s =
     (Return, snd (http_Error w ''Internal Server Error'' 500
        ((case m of None \<Rightarrow> (\<lambda>s. s) | Some a \<Rightarrow> PanicRecoveries_Inc a)
          (Msg ErrorLevel (WithFields log (Ctx r)
             [(''method'', AStr (Method r)), (''path'', AStr (Path r)), (''panic'', err),
              (''stacktrace'', AStr (take 4096 (goroutine_stack s1)))]) ''Panic recovered'' s1))))"
proof -
  let ?s3 = "(case m of None \<Rightarrow> (\<lambda>s. s) | Some a \<Rightarrow> PanicRecoveries_Inc a)
          (Msg ErrorLevel (WithFields log (Ctx r)
             [(''method'', AStr (Method r)), (''path'', AStr (Path r)), (''panic'', err),
              (''stacktrace'', AStr (take 4096 (goroutine_stack s1)))]) ''Panic recovered'' s1)"
  have "Recovery log m nxt w r s = http_Error w ''Internal Server Error'' 500 ?s3"
    using assms by (simp add: Recovery_def Let_def split: option.splits)
  also have "\<dots> = (Return, snd (http_Error w ''Internal Server Error'' 500 ?s3))"
    using http_Error_500(1) [of w "''Internal Server Error''" ?s3]
    by (cases "http_Error w ''Internal Server Error'' 500 ?s3") simp
  finally show ?thesis .
qed

lemma partialHandler_world0:
  "partialHandler Conn request0 world0 =
     (Panic (AStr ''boom''),
      world0\<lparr>resp := fresh_response\<lparr>wroteHeader := True, status := 200, written := 7,
                 body := ''partial''\<rparr>\<rparr>)"
  by (simp add: partialHandler_def world0_def fresh_response_def response_WriteHeader_def
      response_Write_def Header_Get_def Let_def bodyAllowedForStatus_def)

lemma noContentHandler_world0:
  "noContentHandler Conn request0 world0 =
     (Panic (AStr ''boom''), world0\<lparr>resp := fresh_response\<lparr>wroteHeader := True, status := 204\<rparr>\<rparr>)"
  by (simp add: noContentHandler_def world0_def fresh_response_def response_WriteHeader_def
      Header_Get_def Let_def)

section \<open>The panic guard\<close>

text \<open>
  C1, as amended. For every request in which the wrapped handler panics, \<open>Recovery\<close>
  (built with a \<open>Metrics\<close> struct) returns normally, hands exactly one event to the logger,
  at error level, and increments the panic counter exactly once, leaving every other metric
  as the handler left it. The response carries status 500 when the handler had not sent
  the status line before it panicked.
\<close>

theorem Recovery_absorbs_panic:
  assumes "nxt w r s = (Panic err, s1)"
  shows "\<exists>s'. Recovery log (Some a) nxt w r s = (Return, s')
     \<and> logs s' = logs s1 @
          [\<lparr>level = ErrorLevel, msg = ''Panic recovered'',
            event_fields = WithContext log (Ctx r) @
              [(''method'', AStr (Method r)), (''path'', AStr (Path r)), (''panic'', err),
               (''stacktrace'', AStr (take 4096 (goroutine_stack s1)))]\<rparr>]
     \<and> registry s' = (registry s1)
          (a := (registry s1 a)\<lparr>PanicRecoveries := PanicRecoveries (registry s1 a) + 1\<rparr>)
     \<and> (\<not> wroteHeader (resp s1) \<longrightarrow> wroteHeader (resp s') \<and> status (resp s') = 500)"
proof -
  let ?s2 = "Msg ErrorLevel (WithFields log (Ctx r)
             [(''method'', AStr (Method r)), (''path'', AStr (Path r)), (''panic'', err),
              (''stacktrace'', AStr (take 4096 (goroutine_stack s1)))]) ''Panic recovered'' s1"
  let ?s3 = "PanicRecoveries_Inc a ?s2"
  let ?s' = "snd (http_Error w ''Internal Server Error'' 500 ?s3)"
  have run: "Recovery log (Some a) nxt w r s = (Return, ?s')"
    using Recovery_Panic [where nxt = nxt and m = "Some a" and log = log, OF assms] by simp
  have l: "logs ?s' = logs s1 @
          [\<lparr>level = ErrorLevel, msg = ''Panic recovered'',
            event_fields = WithContext log (Ctx r) @
              [(''method'', AStr (Method r)), (''path'', AStr (Path r)), (''panic'', err),
               (''stacktrace'', AStr (take 4096 (goroutine_stack s1)))]\<rparr>]"
    by (simp add: logs_http_Error PanicRecoveries_Inc_def Msg_def WithFields_append)
  have m: "registry ?s' = (registry s1)
          (a := (registry s1 a)\<lparr>PanicRecoveries := PanicRecoveries (registry s1 a) + 1\<rparr>)"
    by (simp add: registry_http_Error PanicRecoveries_Inc_def Msg_def)
  have "resp ?s3 = resp s1"
    by (simp add: PanicRecoveries_Inc_def Msg_def)
  then have st: "\<not> wroteHeader (resp s1) \<longrightarrow> wroteHeader (resp ?s') \<and> status (resp ?s') = 500"
    using http_Error_fresh(1,2) [of ?s3 w "''Internal Server Error''"] by simp
  from run l m st show ?thesis by blast
qed

theorem Recovery_absorbs_panic_witness:
  "panicHandler Conn request0 world0 = (Panic (AStr ''boom''), world0)
   \<and> \<not> wroteHeader (resp world0)
   \<and> (\<exists>s'. Recovery appLogger (Some 0) panicHandler Conn request0 world0 = (Return, s')
        \<and> map level (logs s') = [ErrorLevel]
        \<and> PanicRecoveries (registry s' 0) = 1
        \<and> status (resp s') = 500)"
proof -
  have h: "panicHandler Conn request0 world0 = (Panic (AStr ''boom''), world0)"
    by (simp add: panicHandler_def)
  have f: "\<not> wroteHeader (resp world0)"
    by (simp add: world0_def fresh_response_def)
  from Recovery_absorbs_panic [where nxt = panicHandler and log = appLogger and a = 0, OF h] obtain s' where
    "Recovery appLogger (Some 0) panicHandler Conn request0 world0 = (Return, s')"
    "logs s' = logs world0 @
          [\<lparr>level = ErrorLevel, msg = ''Panic recovered'',
            event_fields = WithContext appLogger (Ctx request0) @
              [(''method'', AStr (Method request0)), (''path'', AStr (Path request0)),
               (''panic'', AStr ''boom''),
               (''stacktrace'', AStr (take 4096 (goroutine_stack world0)))]\<rparr>]"
    "registry s' = (registry world0)
          (0 := (registry world0 0)\<lparr>PanicRecoveries := PanicRecoveries (registry world0 0) + 1\<rparr>)"
    "\<not> wroteHeader (resp world0) \<longrightarrow> wroteHeader (resp s') \<and> status (resp s') = 500"
    by blast
  with h f show ?thesis by (simp add: world0_def)
qed

text \<open>
  C1 as stated fails for a handler that panics after it has sent its own status line:
  the response keeps status 200, since the \<open>WriteHeader(500)\<close> of the fallback is ignored.
\<close>

theorem Recovery_status_counterexample:
  "fst (partialHandler Conn request0 world0) = Panic (AStr ''boom'')
   \<and> status (resp (snd (Recovery appLogger (Some 0) partialHandler Conn request0 world0))) = 200
   \<and> status (resp (snd (Recovery appLogger (Some 0) partialHandler Conn request0 world0))) \<noteq> 500"
proof -
  let ?s1 = "world0\<lparr>resp := fresh_response\<lparr>wroteHeader := True, status := 200, written := 7,
                 body := ''partial''\<rparr>\<rparr>"
  let ?s3 = "PanicRecoveries_Inc 0 (Msg ErrorLevel (WithFields appLogger (Ctx request0)
             [(''method'', AStr (Method request0)), (''path'', AStr (Path request0)),
              (''panic'', AStr ''boom''),
              (''stacktrace'', AStr (take 4096 (goroutine_stack ?s1)))]) ''Panic recovered'' ?s1)"
  have run: "Recovery appLogger (Some 0) partialHandler Conn request0 world0 =
      (Return, snd (http_Error Conn ''Internal Server Error'' 500 ?s3))"
    using Recovery_Panic [where nxt = partialHandler and m = "Some 0" and log = appLogger,
      OF partialHandler_world0] by simp
  have w: "wroteHeader (resp ?s3)" and st: "status (resp ?s3) = 200"
    by (simp_all add: PanicRecoveries_Inc_def Msg_def)
  have "status (resp (snd (http_Error Conn ''Internal Server Error'' 500 ?s3))) = 200"
    using http_Error_sent(1) [OF w, of Conn "''Internal Server Error''"] st by simp
  then show ?thesis
    by (simp add: run partialHandler_world0)
qed

text \<open>
  C4, as amended. When the wrapped handler panics after the final response header has
  been sent, \<open>Recovery\<close> (with or without metrics) does not notice: it still calls
  \<open>http.Error\<close> and returns normally. The status already sent stays, the
  \<open>WriteHeader(500)\<close> is one more superfluous call, and the only event that \<open>Recovery\<close>
  logs is the error-level event of the panic. The 22 bytes of the fallback text are
  appended to the body when the response can take them: the status sent allows a body (it
  is not 1xx, 204 or 304), the request is not a \<open>HEAD\<close> request, and no content length was
  fixed or the bytes offered so far plus 22 stay within it. Otherwise the server refuses
  or discards them and the body stays as the handler left it.
\<close>

theorem Recovery_writes_after_headers:
  assumes "nxt w r s = (Panic err, s1)" and "wroteHeader (resp s1)"
  shows "\<exists>s'. Recovery log m nxt w r s = (Return, s')
     \<and> status (resp s') = status (resp s1)
     \<and> superfluous (resp s') = superfluous (resp s1) + 1
     \<and> (bodyAllowedForStatus (status (resp s1)) \<and> reqMethod (resp s1) \<noteq> ''HEAD'' \<and>
          (contentLength (resp s1) = - 1 \<or> written (resp s1) + 22 \<le> contentLength (resp s1))
          \<longrightarrow> body (resp s') = body (resp s1) @ ''Internal Server Error'' @ [CHR 0x0A])
     \<and> (\<not> bodyAllowedForStatus (status (resp s1)) \<or> reqMethod (resp s1) = ''HEAD'' \<or>
          (contentLength (resp s1) \<noteq> - 1 \<and> written (resp s1) + 22 > contentLength (resp s1))
          \<longrightarrow> body (resp s') = body (resp s1))
     \<and> logs s' = logs s1 @
          [\<lparr>level = ErrorLevel, msg = ''Panic recovered'',
            event_fields = WithContext log (Ctx r) @
              [(''method'', AStr (Method r)), (''path'', AStr (Path r)), (''panic'', err),
               (''stacktrace'', AStr (take 4096 (goroutine_stack s1)))]\<rparr>]"
proof -
  let ?s2 = "Msg ErrorLevel (WithFields log (Ctx r)
             [(''method'', AStr (Method r)), (''path'', AStr (Path r)), (''panic'', err),
              (''stacktrace'', AStr (take 4096 (goroutine_stack s1)))]) ''Panic recovered'' s1"
  let ?s3 = "(case m of None \<Rightarrow> (\<lambda>s. s) | Some a \<Rightarrow> PanicRecoveries_Inc a) ?s2"
  let ?s' = "snd (http_Error w ''Internal Server Error'' 500 ?s3)"
  have run: "Recovery log m nxt w r s = (Return, ?s')"
    using Recovery_Panic [where nxt = nxt and m = m and log = log, OF assms(1)] .
  have r3: "resp ?s3 = resp s1" and l3: "logs ?s3 = logs ?s2"
    by (simp_all add: PanicRecoveries_Inc_def Msg_def split: option.splits)
  have l: "logs ?s' = logs s1 @
          [\<lparr>level = ErrorLevel, msg = ''Panic recovered'',
            event_fields = WithContext log (Ctx r) @
              [(''method'', AStr (Method r)), (''path'', AStr (Path r)), (''panic'', err),
               (''stacktrace'', AStr (take 4096 (goroutine_stack s1)))]\<rparr>]"
    unfolding logs_http_Error l3 by (simp add: Msg_def WithFields_append)
  have sent: "wroteHeader (resp ?s3)"
    using assms(2) r3 by simp
  have a: "status (resp ?s') = status (resp s1)"
    and b: "superfluous (resp ?s') = superfluous (resp s1) + 1"
    using http_Error_sent(1,2) [OF sent, of w "''Internal Server Error''"] r3 by simp_all
  have c: "bodyAllowedForStatus (status (resp s1)) \<and> reqMethod (resp s1) \<noteq> ''HEAD'' \<and>
          (contentLength (resp s1) = - 1 \<or> written (resp s1) + 22 \<le> contentLength (resp s1))
          \<longrightarrow> body (resp ?s') = body (resp s1) @ ''Internal Server Error'' @ [CHR 0x0A]"
    using http_Error_sent(3) [OF sent, of "''Internal Server Error''" w] r3 by auto
  have d: "\<not> bodyAllowedForStatus (status (resp s1)) \<or> reqMethod (resp s1) = ''HEAD'' \<or>
          (contentLength (resp s1) \<noteq> - 1 \<and> written (resp s1) + 22 > contentLength (resp s1))
          \<longrightarrow> body (resp ?s') = body (resp s1)"
    using http_Error_sent(4) [OF sent, of "''Internal Server Error''" w] r3 by auto
  from run a b c d l show ?thesis by blast
qed

theorem Recovery_writes_after_headers_witness:
  "partialHandler Conn request0 world0 =
     (Panic (AStr ''boom''),
      world0\<lparr>resp := fresh_response\<lparr>wroteHeader := True, status := 200, written := 7,
                 body := ''partial''\<rparr>\<rparr>)
   \<and> (\<exists>s'. Recovery appLogger (Some 0) partialHandler Conn request0 world0 = (Return, s')
        \<and> status (resp s') = 200
        \<and> superfluous (resp s') = 1
        \<and> body (resp s') = ''partial'' @ ''Internal Server Error'' @ [CHR 0x0A]
        \<and> map level (logs s') = [ErrorLevel])
   \<and> noContentHandler Conn request0 world0 =
     (Panic (AStr ''boom''), world0\<lparr>resp := fresh_response\<lparr>wroteHeader := True, status := 204\<rparr>\<rparr>)
   \<and> (\<exists>s'. Recovery appLogger (Some 0) noContentHandler Conn request0 world0 = (Return, s')
        \<and> status (resp s') = 204
        \<and> superfluous (resp s') = 1
        \<and> body (resp s') = []
        \<and> map level (logs s') = [ErrorLevel])"
proof -
  let ?s1 = "world0\<lparr>resp := fresh_response\<lparr>wroteHeader := True, status := 200, written := 7,
                 body := ''partial''\<rparr>\<rparr>"
  let ?s2 = "world0\<lparr>resp := fresh_response\<lparr>wroteHeader := True, status := 204\<rparr>\<rparr>"
  have f1: "wroteHeader (resp ?s1)" and f2: "wroteHeader (resp ?s2)"
    by simp_all
  have v1: "status (resp ?s1) = 200" "superfluous (resp ?s1) = 0" "body (resp ?s1) = ''partial''"
    "logs ?s1 = []" "reqMethod (resp ?s1) = ''GET''" "contentLength (resp ?s1) = - 1"
    by (simp_all add: world0_def fresh_response_def)
  have v2: "status (resp ?s2) = 204" "superfluous (resp ?s2) = 0" "body (resp ?s2) = []"
    "logs ?s2 = []"
    by (simp_all add: world0_def fresh_response_def)
  have p1: "bodyAllowedForStatus (status (resp ?s1)) \<and> reqMethod (resp ?s1) \<noteq> ''HEAD'' \<and>
          (contentLength (resp ?s1) = - 1 \<or> written (resp ?s1) + 22 \<le> contentLength (resp ?s1))"
    by (simp add: world0_def fresh_response_def bodyAllowedForStatus_def)
  have p2: "\<not> bodyAllowedForStatus (status (resp ?s2)) \<or> reqMethod (resp ?s2) = ''HEAD'' \<or>
          (contentLength (resp ?s2) \<noteq> - 1 \<and> written (resp ?s2) + 22 > contentLength (resp ?s2))"
    by (simp add: bodyAllowedForStatus_def)
  from Recovery_writes_after_headers
    [where nxt = partialHandler and log = appLogger and m = "Some 0",
     OF partialHandler_world0 f1] p1
  obtain s' where a: "Recovery appLogger (Some 0) partialHandler Conn request0 world0 = (Return, s')"
    "status (resp s') = status (resp ?s1)"
    "superfluous (resp s') = superfluous (resp ?s1) + 1"
    "body (resp s') = body (resp ?s1) @ ''Internal Server Error'' @ [CHR 0x0A]"
    "map level (logs s') = map level (logs ?s1) @ [ErrorLevel]"
    by auto
  have A: "\<exists>s'. Recovery appLogger (Some 0) partialHandler Conn request0 world0 = (Return, s')
        \<and> status (resp s') = 200
        \<and> superfluous (resp s') = 1
        \<and> body (resp s') = ''partial'' @ ''Internal Server Error'' @ [CHR 0x0A]
        \<and> map level (logs s') = [ErrorLevel]"
    using a unfolding v1 by simp
  from Recovery_writes_after_headers
    [where nxt = noContentHandler and log = appLogger and m = "Some 0",
     OF noContentHandler_world0 f2] p2
  obtain s'' where b: "Recovery appLogger (Some 0) noContentHandler Conn request0 world0 = (Return, s'')"
    "status (resp s'') = status (resp ?s2)"
    "superfluous (resp s'') = superfluous (resp ?s2) + 1"
    "body (resp s'') = body (resp ?s2)"
    "map level (logs s'') = map level (logs ?s2) @ [ErrorLevel]"
    by auto
  have B: "\<exists>s'. Recovery appLogger (Some 0) noContentHandler Conn request0 world0 = (Return, s')
        \<and> status (resp s') = 204
        \<and> superfluous (resp s') = 1
        \<and> body (resp s') = []
        \<and> map level (logs s') = [ErrorLevel]"
    using b unfolding v2 by simp
  from A B partialHandler_world0 noContentHandler_world0 show ?thesis by blast
qed

text \<open>
  C4 as stated fails: after a handler that wrote status 200 and the bytes \<open>partial\<close> and
  then panicked, the body holds the fallback text as well, one superfluous \<open>WriteHeader\<close>
  was made, and no event other than the error event was logged.
\<close>

theorem Recovery_second_write_counterexample:
  "fst (partialHandler Conn request0 world0) = Panic (AStr ''boom'')
   \<and> wroteHeader (resp (snd (partialHandler Conn request0 world0)))
   \<and> body (resp (snd (partialHandler Conn request0 world0))) = ''partial''
   \<and> body (resp (snd (Recovery appLogger (Some 0) partialHandler Conn request0 world0)))
       = ''partial'' @ ''Internal Server Error'' @ [CHR 0x0A]
   \<and> superfluous (resp (snd (Recovery appLogger (Some 0) partialHandler Conn request0 world0))) = 1
   \<and> map level (logs (snd (Recovery appLogger (Some 0) partialHandler Conn request0 world0)))
       = [ErrorLevel]"
proof -
  let ?s1 = "world0\<lparr>resp := fresh_response\<lparr>wroteHeader := True, status := 200, written := 7,
                 body := ''partial''\<rparr>\<rparr>"
  let ?s3 = "PanicRecoveries_Inc 0 (Msg ErrorLevel (WithFields appLogger (Ctx request0)
             [(''method'', AStr (Method request0)), (''path'', AStr (Path request0)),
              (''panic'', AStr ''boom''),
              (''stacktrace'', AStr (take 4096 (goroutine_stack ?s1)))]) ''Panic recovered'' ?s1)"
  let ?s' = "snd (http_Error Conn ''Internal Server Error'' 500 ?s3)"
  have run: "Recovery appLogger (Some 0) partialHandler Conn request0 world0 = (Return, ?s')"
    using Recovery_Panic [where nxt = partialHandler and m = "Some 0" and log = appLogger,
      OF partialHandler_world0] by simp
  have v: "wroteHeader (resp ?s3)" "bodyAllowedForStatus (status (resp ?s3))"
    "reqMethod (resp ?s3) \<noteq> ''HEAD''" "contentLength (resp ?s3) = - 1"
    "body (resp ?s3) = ''partial''" "superfluous (resp ?s3) = 0"
    "map level (logs ?s3) = [ErrorLevel]"
    by (simp_all add: PanicRecoveries_Inc_def Msg_def world0_def fresh_response_def
        bodyAllowedForStatus_def)
  have b: "body (resp ?s') = ''partial'' @ ''Internal Server Error'' @ [CHR 0x0A]"
    using http_Error_sent(3) [OF v(1), of "''Internal Server Error''" Conn] v by simp
  have c: "superfluous (resp ?s') = 1"
    using http_Error_sent(2) [OF v(1), of Conn "''Internal Server Error''"] v by simp
  have l: "map level (logs ?s') = [ErrorLevel]"
    unfolding logs_http_Error by (rule v(7))
  show ?thesis
    unfolding run partialHandler_world0 using b c l by (simp add: fresh_response_def)
qed

text \<open>
  C10, as amended. With a nil \<open>Metrics\<close> pointer \<open>Recovery\<close> still recovers every panic of
  the wrapped handler and returns normally, still hands the one error-level event to the
  logger, and changes no metric of any \<open>Metrics\<close> struct. The 500 response is written
  when the handler had not sent the final response header: the status is then 500 and,
  for a request other than \<open>HEAD\<close> (no content length being fixed before the header is
  sent), the fallback text is the next part of the body. When the handler had already
  sent the header, the status sent stays.
\<close>

theorem Recovery_nil_metrics:
  assumes "nxt w r s = (Panic err, s1)"
  shows "\<exists>s'. Recovery log None nxt w r s = (Return, s')
     \<and> logs s' = logs s1 @
          [\<lparr>level = ErrorLevel, msg = ''Panic recovered'',
            event_fields = WithContext log (Ctx r) @
              [(''method'', AStr (Method r)), (''path'', AStr (Path r)), (''panic'', err),
               (''stacktrace'', AStr (take 4096 (goroutine_stack s1)))]\<rparr>]
     \<and> registry s' = registry s1
     \<and> (\<not> wroteHeader (resp s1) \<longrightarrow>
          wroteHeader (resp s') \<and> status (resp s') = 500 \<and>
          (reqMethod (resp s1) \<noteq> ''HEAD'' \<and> contentLength (resp s1) = - 1 \<longrightarrow>
             body (resp s') = body (resp s1) @ ''Internal Server Error'' @ [CHR 0x0A]))
     \<and> (wroteHeader (resp s1) \<longrightarrow> status (resp s') = status (resp s1))"
proof -
  let ?s2 = "Msg ErrorLevel (WithFields log (Ctx r)
             [(''method'', AStr (Method r)), (''path'', AStr (Path r)), (''panic'', err),
              (''stacktrace'', AStr (take 4096 (goroutine_stack s1)))]) ''Panic recovered'' s1"
  let ?s' = "snd (http_Error w ''Internal Server Error'' 500 ?s2)"
  have run: "Recovery log None nxt w r s = (Return, ?s')"
    using Recovery_Panic [where nxt = nxt and m = None and log = log, OF assms] by simp
  have l: "logs ?s' = logs s1 @
          [\<lparr>level = ErrorLevel, msg = ''Panic recovered'',
            event_fields = WithContext log (Ctx r) @
              [(''method'', AStr (Method r)), (''path'', AStr (Path r)), (''panic'', err),
               (''stacktrace'', AStr (take 4096 (goroutine_stack s1)))]\<rparr>]"
    by (simp add: logs_http_Error Msg_def WithFields_append)
  have m: "registry ?s' = registry s1"
    by (simp add: registry_http_Error Msg_def)
  have r2: "resp ?s2 = resp s1"
    by (simp add: Msg_def)
  have fresh: "\<not> wroteHeader (resp s1) \<longrightarrow>
          wroteHeader (resp ?s') \<and> status (resp ?s') = 500 \<and>
          (reqMethod (resp s1) \<noteq> ''HEAD'' \<and> contentLength (resp s1) = - 1 \<longrightarrow>
             body (resp ?s') = body (resp s1) @ ''Internal Server Error'' @ [CHR 0x0A])"
    using http_Error_fresh(1,2) [of ?s2 w "''Internal Server Error''"]
      http_Error_fresh(4) [where s = ?s2 and e = "''Internal Server Error''" and w = w] r2
    by simp
  have sent: "wroteHeader (resp s1) \<longrightarrow> status (resp ?s') = status (resp s1)"
    using http_Error_sent(1) [of ?s2 w "''Internal Server Error''"] r2 by simp
  from run l m fresh sent show ?thesis by blast
qed

theorem Recovery_nil_metrics_witness:
  "panicHandler Conn request0 world0 = (Panic (AStr ''boom''), world0)
   \<and> \<not> wroteHeader (resp world0) \<and> reqMethod (resp world0) \<noteq> ''HEAD''
   \<and> contentLength (resp world0) = - 1
   \<and> (\<exists>s'. Recovery appLogger None panicHandler Conn request0 world0 = (Return, s')
        \<and> map level (logs s') = [ErrorLevel]
        \<and> PanicRecoveries (registry s' 0) = 0
        \<and> status (resp s') = 500
        \<and> body (resp s') = ''Internal Server Error'' @ [CHR 0x0A])
   \<and> noContentHandler Conn request0 world0 =
     (Panic (AStr ''boom''), world0\<lparr>resp := fresh_response\<lparr>wroteHeader := True, status := 204\<rparr>\<rparr>)
   \<and> (\<exists>s'. Recovery appLogger None noContentHandler Conn request0 world0 = (Return, s')
        \<and> status (resp s') = 204)"
proof -
  let ?s2 = "world0\<lparr>resp := fresh_response\<lparr>wroteHeader := True, status := 204\<rparr>\<rparr>"
  have h: "panicHandler Conn request0 world0 = (Panic (AStr ''boom''), world0)"
    by (simp add: panicHandler_def)
  have f: "\<not> wroteHeader (resp world0)" "reqMethod (resp world0) \<noteq> ''HEAD''"
    "contentLength (resp world0) = - 1" "body (resp world0) = []"
    by (simp_all add: world0_def fresh_response_def)
  from Recovery_nil_metrics [where nxt = panicHandler and log = appLogger, OF h] f
  obtain s' where a:
    "Recovery appLogger None panicHandler Conn request0 world0 = (Return, s')"
    "map level (logs s') = map level (logs world0) @ [ErrorLevel]"
    "registry s' = registry world0"
    "status (resp s') = 500"
    "body (resp s') = body (resp world0) @ ''Internal Server Error'' @ [CHR 0x0A]"
    by auto
  have A: "\<exists>s'. Recovery appLogger None panicHandler Conn request0 world0 = (Return, s')
        \<and> map level (logs s') = [ErrorLevel]
        \<and> PanicRecoveries (registry s' 0) = 0
        \<and> status (resp s') = 500
        \<and> body (resp s') = ''Internal Server Error'' @ [CHR 0x0A]"
    using a f by (simp add: world0_def)
  from Recovery_nil_metrics [where nxt = noContentHandler and log = appLogger,
      OF noContentHandler_world0]
  obtain s'' where b:
    "Recovery appLogger None noContentHandler Conn request0 world0 = (Return, s'')"
    "wroteHeader (resp ?s2) \<longrightarrow> status (resp s'') = status (resp ?s2)"
    by auto
  have B: "\<exists>s'. Recovery appLogger None noContentHandler Conn request0 world0 = (Return, s')
        \<and> status (resp s') = 204"
    using b by simp
  from A B h f noContentHandler_world0 show ?thesis by blast
qed

text \<open>
  C10 as stated fails for a handler that panics after it has sent its own status line:
  with a nil \<open>Metrics\<close> pointer too the response keeps status 200, not 500.
\<close>

theorem Recovery_nil_metrics_counterexample:
  "fst (partialHandler Conn request0 world0) = Panic (AStr ''boom'')
   \<and> fst (Recovery appLogger None partialHandler Conn request0 world0) = Return
   \<and> status (resp (snd (Recovery appLogger None partialHandler Conn request0 world0))) = 200
   \<and> status (resp (snd (Recovery appLogger None partialHandler Conn request0 world0))) \<noteq> 500"
proof -
  let ?s1 = "world0\<lparr>resp := fresh_response\<lparr>wroteHeader := True, status := 200, written := 7,
                 body := ''partial''\<rparr>\<rparr>"
  let ?s3 = "Msg ErrorLevel (WithFields appLogger (Ctx request0)
             [(''method'', AStr (Method request0)), (''path'', AStr (Path request0)),
              (''panic'', AStr ''boom''),
              (''stacktrace'', AStr (take 4096 (goroutine_stack ?s1)))]) ''Panic recovered'' ?s1"
  have run: "Recovery appLogger None partialHandler Conn request0 world0 =
      (Return, snd (http_Error Conn ''Internal Server Error'' 500 ?s3))"
    using Recovery_Panic [where nxt = partialHandler and m = None and log = appLogger,
      OF partialHandler_world0] by simp
  have w: "wroteHeader (resp ?s3)" and st: "status (resp ?s3) = 200"
    by (simp_all add: Msg_def)
  have "status (resp (snd (http_Error Conn ''Internal Server Error'' 500 ?s3))) = 200"
    using http_Error_sent(1) [OF w, of Conn "''Internal Server Error''"] st by simp
  then show ?thesis
    by (simp add: run partialHandler_world0)
qed

section \<open>The metrics middleware\<close>

lemma MetricsMiddleware_run:
  assumes "nxt (Wrapper (allocated s) w) r
             (RequestsInFlight_Inc a (snd (newResponseWriter 200 s))) = (out, s2)"
  shows "MetricsMiddleware (Some a) nxt w r s =
     (out, RequestsInFlight_Dec a
        (case out of
           Panic err \<Rightarrow> s2
         | Return \<Rightarrow>
             RequestDuration_Observe a (Method r, Path r) (clock s2 - clock s)
               (RequestsTotal_Inc a (Method r, Path r, Sprintf_d (statusCode s2 (allocated s))) s2)))"
  using assms
  by (cases out) (simp_all add: MetricsMiddleware_def Let_def newResponseWriter_def)

lemma Sprintf_d_200: "Sprintf_d 200 = ''200''"
  by code_simp

lemma Sprintf_d_404: "Sprintf_d 404 = ''404''"
  by code_simp

text \<open>
  C6. For every request that passes through \<open>MetricsMiddleware\<close>, whatever the outcome
  of the inner handler (a normal return or a panic, which the middleware passes on), the
  gauge is incremented once before the handler runs and decremented once after it: the
  handler starts with the gauge one above its value before the request, and the final
  gauge is one below the value the handler left. So when the handler leaves the gauge as
  it found it, the gauge is back at its value before the request.
\<close>

theorem MetricsMiddleware_in_flight:
  assumes "nxt (Wrapper (allocated s) w) r
             (RequestsInFlight_Inc a (snd (newResponseWriter 200 s))) = (out, s2)"
  shows "\<exists>s'. MetricsMiddleware (Some a) nxt w r s = (out, s')
     \<and> RequestsInFlight (registry (RequestsInFlight_Inc a (snd (newResponseWriter 200 s))) a)
         = RequestsInFlight (registry s a) + 1
     \<and> RequestsInFlight (registry s' a) = RequestsInFlight (registry s2 a) - 1
     \<and> (RequestsInFlight (registry s2 a) = RequestsInFlight (registry s a) + 1
          \<longrightarrow> RequestsInFlight (registry s' a) = RequestsInFlight (registry s a))"
proof -
  let ?s' = "RequestsInFlight_Dec a
        (case out of
           Panic err \<Rightarrow> s2
         | Return \<Rightarrow>
             RequestDuration_Observe a (Method r, Path r) (clock s2 - clock s)
               (RequestsTotal_Inc a (Method r, Path r, Sprintf_d (statusCode s2 (allocated s))) s2))"
  have run: "MetricsMiddleware (Some a) nxt w r s = (out, ?s')"
    using MetricsMiddleware_run [where nxt = nxt and out = out, OF assms] .
  have inc: "RequestsInFlight (registry (RequestsInFlight_Inc a (snd (newResponseWriter 200 s))) a)
         = RequestsInFlight (registry s a) + 1"
    by (simp add: RequestsInFlight_Inc_def newResponseWriter_def)
  have dec: "RequestsInFlight (registry ?s' a) = RequestsInFlight (registry s2 a) - 1"
    by (cases out)
      (simp_all add: RequestsInFlight_Dec_def RequestDuration_Observe_def RequestsTotal_Inc_def)
  from run inc dec show ?thesis by auto
qed

theorem MetricsMiddleware_in_flight_witness:
  "panicHandler (Wrapper (allocated world0) Conn) request0
      (RequestsInFlight_Inc 0 (snd (newResponseWriter 200 world0)))
     = (Panic (AStr ''boom''), RequestsInFlight_Inc 0 (snd (newResponseWriter 200 world0)))
   \<and> RequestsInFlight (registry (RequestsInFlight_Inc 0 (snd (newResponseWriter 200 world0))) 0)
       = RequestsInFlight (registry world0 0) + 1
   \<and> fst (MetricsMiddleware (Some 0) panicHandler Conn request0 world0) = Panic (AStr ''boom'')
   \<and> RequestsInFlight (registry (snd (MetricsMiddleware (Some 0) panicHandler Conn request0 world0)) 0)
       = RequestsInFlight (registry world0 0)"
proof -
  let ?s1 = "RequestsInFlight_Inc 0 (snd (newResponseWriter 200 world0))"
  have h: "panicHandler (Wrapper (allocated world0) Conn) request0 ?s1 = (Panic (AStr ''boom''), ?s1)"
    by (simp add: panicHandler_def)
  have g: "RequestsInFlight (registry ?s1 0) = RequestsInFlight (registry world0 0) + 1"
    by (simp add: RequestsInFlight_Inc_def newResponseWriter_def)
  from MetricsMiddleware_in_flight [where nxt = panicHandler and out = "Panic (AStr ''boom'')", OF h]
  obtain s' where
    "MetricsMiddleware (Some 0) panicHandler Conn request0 world0 = (Panic (AStr ''boom''), s')"
    "RequestsInFlight (registry ?s1 0) = RequestsInFlight (registry world0 0) + 1
       \<longrightarrow> RequestsInFlight (registry s' 0) = RequestsInFlight (registry world0 0)"
    by blast
  with h g show ?thesis by simp
qed

text \<open>
  C8, as amended. For every request that returns normally through \<open>MetricsMiddleware\<close>,
  the request counter is incremented exactly once, at the labels (method, path, status)
  where the status label is the decimal text of the status code that the wrapper recorded
  (such as \<open>200\<close>, \<open>404\<close>, \<open>500\<close>), and the duration histogram gets exactly one
  observation, labelled (method, path).
\<close>

theorem MetricsMiddleware_records:
  assumes "nxt (Wrapper (allocated s) w) r
             (RequestsInFlight_Inc a (snd (newResponseWriter 200 s))) = (Return, s2)"
  shows "\<exists>s'. MetricsMiddleware (Some a) nxt w r s = (Return, s')
     \<and> RequestsTotal (registry s' a) =
         (RequestsTotal (registry s2 a))
           ((Method r, Path r, Sprintf_d (statusCode s2 (allocated s))) :=
              RequestsTotal (registry s2 a) (Method r, Path r, Sprintf_d (statusCode s2 (allocated s))) + 1)
     \<and> RequestDuration (registry s' a) =
         RequestDuration (registry s2 a) @ [((Method r, Path r), clock s2 - clock s)]"
proof -
  let ?s' = "RequestsInFlight_Dec a
             (RequestDuration_Observe a (Method r, Path r) (clock s2 - clock s)
               (RequestsTotal_Inc a (Method r, Path r, Sprintf_d (statusCode s2 (allocated s))) s2))"
  have run: "MetricsMiddleware (Some a) nxt w r s = (Return, ?s')"
    using MetricsMiddleware_run [where nxt = nxt and out = Return, OF assms] by simp
  have c: "RequestsTotal (registry ?s' a) =
         (RequestsTotal (registry s2 a))
           ((Method r, Path r, Sprintf_d (statusCode s2 (allocated s))) :=
              RequestsTotal (registry s2 a) (Method r, Path r, Sprintf_d (statusCode s2 (allocated s))) + 1)"
    by (simp add: RequestsInFlight_Dec_def RequestDuration_Observe_def RequestsTotal_Inc_def)
  have d: "RequestDuration (registry ?s' a) =
         RequestDuration (registry s2 a) @ [((Method r, Path r), clock s2 - clock s)]"
    by (simp add: RequestsInFlight_Dec_def RequestDuration_Observe_def RequestsTotal_Inc_def)
  from run c d show ?thesis by blast
qed

theorem MetricsMiddleware_records_witness:
  "fst (helloHandler (Wrapper (allocated world0) Conn) request0
      (RequestsInFlight_Inc 0 (snd (newResponseWriter 200 world0)))) = Return
   \<and> (\<exists>s'. MetricsMiddleware (Some 0) helloHandler Conn request0 world0 = (Return, s')
        \<and> RequestsTotal (registry s' 0) = (\<lambda>_. 0)((''GET'', ''/api/hello'', ''200'') := 1)
        \<and> RequestDuration (registry s' 0) = [((''GET'', ''/api/hello''), 0)])"
proof -
  let ?s1 = "RequestsInFlight_Inc 0 (snd (newResponseWriter 200 world0))"
  let ?s2 = "snd (helloHandler (Wrapper (allocated world0) Conn) request0 ?s1)"
  have f: "fst (helloHandler (Wrapper (allocated world0) Conn) request0 ?s1) = Return"
    by (simp add: helloHandler_def world0_def fresh_response_def newResponseWriter_def
        RequestsInFlight_Inc_def response_WriteHeader_def Header_Get_def Let_def)
  then have h: "helloHandler (Wrapper (allocated world0) Conn) request0 ?s1 = (Return, ?s2)"
    by (cases "helloHandler (Wrapper (allocated world0) Conn) request0 ?s1") simp
  have v: "registry ?s2 0 = \<lparr>RequestsTotal = (\<lambda>_. 0), RequestDuration = [],
                          RequestsInFlight = 1, PanicRecoveries = 0\<rparr>"
    "statusCode ?s2 (allocated world0) = 200" "clock ?s2 = clock world0"
    "Method request0 = ''GET''" "Path request0 = ''/api/hello''"
    by (simp_all add: helloHandler_def world0_def fresh_response_def newResponseWriter_def
        RequestsInFlight_Inc_def response_WriteHeader_def Header_Get_def Let_def request0_def)
  from MetricsMiddleware_records [where nxt = helloHandler, OF h]
  obtain s' where a: "MetricsMiddleware (Some 0) helloHandler Conn request0 world0 = (Return, s')"
    and b: "RequestsTotal (registry s' 0) =
         (RequestsTotal (registry ?s2 0))
           ((Method request0, Path request0, Sprintf_d (statusCode ?s2 (allocated world0))) :=
              RequestsTotal (registry ?s2 0)
                (Method request0, Path request0, Sprintf_d (statusCode ?s2 (allocated world0))) + 1)"
    and c: "RequestDuration (registry s' 0) =
         RequestDuration (registry ?s2 0) @ [((Method request0, Path request0), clock ?s2 - clock world0)]"
    by blast
  have b': "RequestsTotal (registry s' 0) = (\<lambda>_. 0)((''GET'', ''/api/hello'', ''200'') := 1)"
    unfolding b v Sprintf_d_200 by simp
  have c': "RequestDuration (registry s' 0) = [((''GET'', ''/api/hello''), 0)]"
    unfolding c v by simp
  from f a b' c' show ?thesis by blast
qed

text \<open>
  C8 as stated fails: a handler that answers 404 is counted under the status label
  \<open>404\<close>, the full code, and nothing is counted under a class label such as \<open>4xx\<close>.
\<close>

theorem MetricsMiddleware_status_label_counterexample:
  "fst (notFoundHandler (Wrapper 0 Conn) request0
      (RequestsInFlight_Inc 0 (snd (newResponseWriter 200 world0)))) = Return
   \<and> status (resp (snd (notFoundHandler (Wrapper 0 Conn) request0
      (RequestsInFlight_Inc 0 (snd (newResponseWriter 200 world0)))))) = 404
   \<and> fst (MetricsMiddleware (Some 0) notFoundHandler Conn request0 world0) = Return
   \<and> RequestsTotal (registry (snd (MetricsMiddleware (Some 0) notFoundHandler Conn request0 world0)) 0)
        (''GET'', ''/api/hello'', ''404'') = 1
   \<and> RequestsTotal (registry (snd (MetricsMiddleware (Some 0) notFoundHandler Conn request0 world0)) 0)
        (''GET'', ''/api/hello'', ''4xx'') = 0"
  by (simp add: notFoundHandler_def MetricsMiddleware_def Let_def newResponseWriter_def
      RequestsInFlight_Inc_def RequestsInFlight_Dec_def RequestDuration_Observe_def
      RequestsTotal_Inc_def world0_def request0_def fresh_response_def
      response_WriteHeader_def Header_Get_def Sprintf_d_404)

section \<open>The identifier resolver in \<open>TracedLogging\<close>\<close>

lemma length_EncodeToString: "length (EncodeToString bs) = 2 * length bs"
  by (induction bs) (simp_all add: EncodeToString_def hex_byte_def)

lemma length_UUID_String: "length (UUID_String u) = 36"
  by (simp add: UUID_String_def Let_def length_EncodeToString bytes16_def)

lemma length_TraceID_String: "length (TraceID_String t) = 32"
  by (simp add: TraceID_String_def length_EncodeToString bytes16_def)

lemma UUID_String_nonempty: "UUID_String u \<noteq> []" "take 16 (UUID_String u) \<noteq> []"
  using length_UUID_String [of u] by auto

lemma TraceID_String_nonempty: "TraceID_String t \<noteq> []"
  using length_TraceID_String [of t] by auto

lemma ContextKey_distinct:
  "RequestIDKey \<noteq> TraceIDKey" "RequestIDKey \<noteq> SpanIDKey" "TraceIDKey \<noteq> SpanIDKey"
  "TraceIDKey \<noteq> RequestIDKey" "SpanIDKey \<noteq> RequestIDKey" "SpanIDKey \<noteq> TraceIDKey"
  by (simp_all add: RequestIDKey_def TraceIDKey_def SpanIDKey_def)

lemma GetRequestID_ExtractTraceContext:
  "GetRequestID (fst (ExtractTraceContext c requestID traceID s)) =
     (if requestID = [] then UUID_String (uuids s (uuid_next s)) else requestID)"
  by (simp add: ExtractTraceContext_def Let_def uuid_New_def GetRequestID_def WithValue_def
      ContextKey_distinct split: prod.splits)

lemma GetTraceID_ExtractTraceContext:
  "GetTraceID (fst (ExtractTraceContext c requestID traceID s)) =
     (if traceID = []
      then take 16 (UUID_String (uuids s (if requestID = [] then uuid_next s + 1 else uuid_next s)))
      else traceID)"
  by (simp add: ExtractTraceContext_def Let_def uuid_New_def GetTraceID_def WithValue_def
      ContextKey_distinct split: prod.splits)

lemma GetTraceID_WithSpanID: "GetTraceID (WithSpanID c x) = GetTraceID c"
  by (simp add: GetTraceID_def WithSpanID_def WithValue_def ContextKey_distinct)

lemma GetRequestID_WithSpanID: "GetRequestID (WithSpanID c x) = GetRequestID c"
  by (simp add: GetRequestID_def WithSpanID_def WithValue_def ContextKey_distinct)

lemma resolved_eq:
  "resolved r s =
     (let otelTraceID = (if tracing_GetTraceID (Ctx r) = [] then Header_Get (Header r) ''X-Trace-ID''
                         else tracing_GetTraceID (Ctx r));
          c = fst (ExtractTraceContext (Ctx r) (Header_Get (Header r) ''X-Request-ID'') otelTraceID s)
      in if tracing_GetSpanID (Ctx r) \<noteq> [] then WithSpanID c (tracing_GetSpanID (Ctx r)) else c)"
  by (simp add: resolved_def TracedLogging_resolve_def Let_def case_prod_beta)

lemma GetTraceID_resolved:
  "GetTraceID (resolved r s) =
     (let otelTraceID = (if tracing_GetTraceID (Ctx r) = [] then Header_Get (Header r) ''X-Trace-ID''
                         else tracing_GetTraceID (Ctx r))
      in if otelTraceID = []
         then take 16 (UUID_String (uuids s
                (if Header_Get (Header r) ''X-Request-ID'' = [] then uuid_next s + 1 else uuid_next s)))
         else otelTraceID)"
  by (simp add: resolved_eq Let_def GetTraceID_WithSpanID GetTraceID_ExtractTraceContext)

lemma GetRequestID_resolved:
  "GetRequestID (resolved r s) =
     (if Header_Get (Header r) ''X-Request-ID'' = [] then UUID_String (uuids s (uuid_next s))
      else Header_Get (Header r) ''X-Request-ID'')"
  by (simp add: resolved_eq Let_def GetRequestID_WithSpanID GetRequestID_ExtractTraceContext)

lemma TraceID_String_1: "TraceID_String 1 = ''00000000000000000000000000000001''"
  by code_simp

text \<open>
  C3, as amended. When a span with a trace id is active, the trace id of the resolved
  context is the span's trace id, whatever the inbound \<open>X-Trace-ID\<close> header holds; the
  inbound header value is the resolved trace id only when no span trace id is active
  (and the header value is not empty).
\<close>

theorem TracedLogging_span_before_header:
  "(HasTraceID (span (Ctx r)) \<longrightarrow>
      GetTraceID (resolved r s) = TraceID_String (TraceID (span (Ctx r))))
   \<and> (\<not> HasTraceID (span (Ctx r)) \<and> Header_Get (Header r) ''X-Trace-ID'' \<noteq> [] \<longrightarrow>
      GetTraceID (resolved r s) = Header_Get (Header r) ''X-Trace-ID'')"
  by (simp add: GetTraceID_resolved tracing_GetTraceID_def TraceID_String_nonempty Let_def)

theorem TracedLogging_span_before_header_witness:
  "HasTraceID (span (Ctx traced_request))
   \<and> GetTraceID (resolved traced_request world0) = ''00000000000000000000000000000001''
   \<and> \<not> HasTraceID (span (Ctx untraced_request))
   \<and> Header_Get (Header untraced_request) ''X-Trace-ID'' \<noteq> []
   \<and> GetTraceID (resolved untraced_request world0) = ''abc''"
  using TracedLogging_span_before_header [of traced_request world0]
    TracedLogging_span_before_header [of untraced_request world0]
  by (simp add: traced_request_def untraced_request_def request0_def background_def
      HasTraceID_def Header_Get_def TraceID_String_1)

text \<open>
  C3 as stated fails: with the inbound header \<open>X-Trace-ID: abc\<close> and an active span of
  trace id 1, the resolved trace id is the span's, not \<open>abc\<close>.
\<close>

theorem TracedLogging_header_trace_id_counterexample:
  "Header_Get (Header traced_request) ''X-Trace-ID'' = ''abc''
   \<and> HasTraceID (span (Ctx traced_request))
   \<and> GetTraceID (resolved traced_request world0) = ''00000000000000000000000000000001''
   \<and> GetTraceID (resolved traced_request world0) \<noteq> ''abc''"
  by (simp add: GetTraceID_resolved tracing_GetTraceID_def traced_request_def request0_def
      background_def HasTraceID_def Header_Get_def TraceID_String_1 Let_def)

section \<open>Response headers and the next hop\<close>

lemma UUID_String_world0:
  "UUID_String (example_uuid 0) = ''01000000-0000-0000-0000-000000000000''"
  "UUID_String (example_uuid (Suc 0)) = ''02000000-0000-0000-0000-000000000000''"
  "UUID_String (example_uuid 2) = ''03000000-0000-0000-0000-000000000000''"
  "UUID_String (example_uuid 3) = ''04000000-0000-0000-0000-000000000000''"
  by code_simp+

lemma uuids_world0: "uuids world0 = example_uuid" "uuid_next world0 = 0"
  by (simp_all add: world0_def)

lemma header_stamped:
  "header (resp (stamped r s)) ''X-Request-ID'' = Some [GetRequestID (resolved r s)]"
  "header (resp (stamped r s)) ''X-Trace-ID'' =
     Some [if tracing_GetTraceID (Ctx r) = [] then Header_Get (Header r) ''X-Trace-ID''
           else tracing_GetTraceID (Ctx r)]"
  by (simp_all add: stamped_def resolved_def TracedLogging_resolve_def TracedLogging_stamp_def
      Let_def case_prod_beta Header_Set_def)

lemma uuid_next_stamped:
  "uuid_next (stamped r s) = uuid_next s + (if Header_Get (Header r) ''X-Request-ID'' = [] then 1 else 0)
     + (if (if tracing_GetTraceID (Ctx r) = [] then Header_Get (Header r) ''X-Trace-ID''
           else tracing_GetTraceID (Ctx r)) = [] then 1 else 0) + 1"
  "uuids (stamped r s) = uuids s"
  by (simp_all add: stamped_def resolved_def TracedLogging_resolve_def TracedLogging_stamp_def
      Let_def case_prod_beta ExtractTraceContext_def uuid_New_def)

lemma GetRequestID_resolved_nonempty: "GetRequestID (resolved r s) \<noteq> []"
  by (simp add: GetRequestID_resolved UUID_String_nonempty)

lemma request_id_round_trip:
  "GetRequestID (resolved (downstream r s) s') = GetRequestID (resolved r s)"
proof -
  have a: "Header_Get (Header (downstream r s)) ''X-Request-ID'' = GetRequestID (resolved r s)"
    by (simp add: downstream_def header_stamped Header_Get_def)
  have "GetRequestID (resolved (downstream r s) s') =
      (if Header_Get (Header (downstream r s)) ''X-Request-ID'' = []
       then UUID_String (uuids s' (uuid_next s'))
       else Header_Get (Header (downstream r s)) ''X-Request-ID'')"
    by (rule GetRequestID_resolved)
  also have "\<dots> = GetRequestID (resolved r s)"
    unfolding a using GetRequestID_resolved_nonempty [of r s] by simp
  finally show ?thesis .
qed

lemma trace_id_round_trip:
  assumes "tracing_GetTraceID (Ctx r) \<noteq> [] \<or> Header_Get (Header r) ''X-Trace-ID'' \<noteq> []"
  shows "GetTraceID (resolved (downstream r s) s') = GetTraceID (resolved r s)"
proof -
  let ?t = "if tracing_GetTraceID (Ctx r) = [] then Header_Get (Header r) ''X-Trace-ID''
            else tracing_GetTraceID (Ctx r)"
  have t: "?t \<noteq> []"
    using assms by auto
  have a: "Header_Get (Header (downstream r s)) ''X-Trace-ID'' = ?t"
    "tracing_GetTraceID (Ctx (downstream r s)) = []"
    by (simp_all add: downstream_def header_stamped Header_Get_def background_def
        tracing_GetTraceID_def HasTraceID_def)
  have "GetTraceID (resolved (downstream r s) s') = ?t"
    unfolding GetTraceID_resolved [of "downstream r s"] a using assms by (auto simp add: Let_def)
  moreover have "GetTraceID (resolved r s) = ?t"
    unfolding GetTraceID_resolved [of r] using assms by (auto simp add: Let_def)
  ultimately show ?thesis by simp
qed

text \<open>
  The sibling middleware \<open>Logging\<close> stamps \<open>X-Trace-ID\<close> from the resolved context, so
  for the request with \<open>X-Request-ID: req-42\<close> and no trace header its response carries
  the generated trace id.
\<close>

lemma Logging_stamps_resolved_trace_id:
  "header (resp (snd (Logging appLogger helloHandler Conn request42 world0)))
        ''X-Trace-ID'' = Some [''01000000-0000-00'']"
  by (simp add: Logging_def 
      ExtractTraceContext_def uuid_New_def Let_def 
      request42_def request0_def background_def world0_def fresh_response_def appLogger_def

      helloHandler_def newResponseWriter_def Msg_def WithFields_append
      WithContext_def WithValue_def GetRequestID_def
      Header_Get_def Header_Set_def UserAgent_def Milliseconds_def
      response_Write_def response_WriteHeader_def bodyAllowedForStatus_def Header_Del_def
      RequestIDKey_def TraceIDKey_def SpanIDKey_def UserIDKey_def GetTraceID_def
      UUID_String_world0)

text \<open>
  C2. The claim does not hold of \<open>TracedLogging\<close>: for the request with
  \<open>X-Request-ID: req-42\<close>, no \<open>X-Trace-ID\<close> header and no active span, the response header
  \<open>X-Request-ID\<close> is \<open>req-42\<close> and the event carries \<open>request_id = req-42\<close>, but the
  response header \<open>X-Trace-ID\<close> is set to the empty string, while the resolved context
  holds the generated trace id \<open>01000000-0000-00\<close>; the event carries that id and then an
  empty \<open>trace_id\<close> again.
\<close>

theorem TracedLogging_empty_trace_header:
  "Header_Get (Header request42) ''X-Request-ID'' = ''req-42''
   \<and> Header request42 ''X-Trace-ID'' = None
   \<and> tracing_GetTraceID (Ctx request42) = []
   \<and> fst (TracedLogging appLogger helloHandler Conn request42 world0) = Return
   \<and> header (resp (snd (TracedLogging appLogger helloHandler Conn request42 world0)))
        ''X-Request-ID'' = Some [''req-42'']
   \<and> header (resp (snd (TracedLogging appLogger helloHandler Conn request42 world0)))
        ''X-Trace-ID'' = Some [[]]
   \<and> GetTraceID (resolved request42 world0) = ''01000000-0000-00''
   \<and> map event_fields (logs (snd (TracedLogging appLogger helloHandler Conn request42 world0))) =
       [[(''app'', AStr ''go-api''), (''version'', AStr ''1.0.0''),
         (''request_id'', AStr ''req-42''), (''trace_id'', AStr ''01000000-0000-00''),
         (''span_id'', AStr ''02000000''),
         (''method'', AStr ''GET''), (''path'', AStr ''/api/hello''), (''status'', AInt 200),
         (''duration_ms'', AInt 0), (''remote_addr'', AStr ''10.0.0.1:4711''),
         (''user_agent'', AStr []), (''trace_id'', AStr []), (''span_id'', AStr [])]]"
  by (simp add: TracedLogging_def TracedLogging_resolve_def TracedLogging_stamp_def
      ExtractTraceContext_def uuid_New_def Let_def resolved_def
      request42_def request0_def background_def world0_def fresh_response_def appLogger_def

      helloHandler_def newResponseWriter_def SetAttributes_def Msg_def WithFields_append
      WithContext_def WithValue_def WithSpanID_def GetRequestID_def
      tracing_GetTraceID_def tracing_GetSpanID_def HasTraceID_def HasSpanID_def
      Header_Get_def Header_Set_def UserAgent_def Milliseconds_def
      response_Write_def response_WriteHeader_def bodyAllowedForStatus_def Header_Del_def
      RequestIDKey_def TraceIDKey_def SpanIDKey_def UserIDKey_def GetTraceID_def
      UUID_String_world0)

text \<open>
  C5. The round trip does not hold of \<open>TracedLogging\<close>: for a request without
  identifiers and without a span, the request id is stamped and comes back unchanged on the
  next hop, but \<open>X-Trace-ID\<close> is stamped empty, so the next hop generates another trace id
  (\<open>04000000-0000-00\<close> after \<open>02000000-0000-00\<close>).
\<close>

theorem TracedLogging_round_trip_loses_trace_id:
  "Header request0 ''X-Request-ID'' = None \<and> Header request0 ''X-Trace-ID'' = None
   \<and> tracing_GetTraceID (Ctx request0) = []
   \<and> header (resp (stamped request0 world0)) ''X-Request-ID'' =
        Some [GetRequestID (resolved request0 world0)]
   \<and> header (resp (stamped request0 world0)) ''X-Trace-ID'' = Some [[]]
   \<and> GetRequestID (resolved (downstream request0 world0) (stamped request0 world0)) =
        GetRequestID (resolved request0 world0)
   \<and> GetTraceID (resolved request0 world0) = ''02000000-0000-00''
   \<and> GetTraceID (resolved (downstream request0 world0) (stamped request0 world0)) =
        ''04000000-0000-00''"
proof -
  have r0: "Header request0 ''X-Request-ID'' = None" "Header request0 ''X-Trace-ID'' = None"
    "tracing_GetTraceID (Ctx request0) = []"
    "Header_Get (Header request0) ''X-Request-ID'' = []"
    "Header_Get (Header request0) ''X-Trace-ID'' = []"
    by (simp_all add: request0_def background_def tracing_GetTraceID_def HasTraceID_def
        Header_Get_def)
  have h: "header (resp (stamped request0 world0)) ''X-Trace-ID'' = Some [[]]"
    by (simp add: header_stamped r0)
  have t1: "GetTraceID (resolved request0 world0) = ''02000000-0000-00''"
    by (simp add: GetTraceID_resolved r0 uuids_world0 UUID_String_world0)
  have d0: "Ctx (downstream request0 world0) = Ctx request0"
    by (simp add: downstream_def request0_def)
  have d: "tracing_GetTraceID (Ctx (downstream request0 world0)) = []"
    "Header_Get (Header (downstream request0 world0)) ''X-Trace-ID'' = []"
    "Header_Get (Header (downstream request0 world0)) ''X-Request-ID'' \<noteq> []"
    using GetRequestID_resolved_nonempty [of request0 world0]
    by (simp_all add: d0 r0) (simp_all add: downstream_def header_stamped Header_Get_def r0)
  have n: "uuid_next (stamped request0 world0) = 3"
    by (simp add: uuid_next_stamped r0 uuids_world0)
  have t2: "GetTraceID (resolved (downstream request0 world0) (stamped request0 world0)) =
        ''04000000-0000-00''"
    by (simp add: GetTraceID_resolved d r0 n uuid_next_stamped(2) uuids_world0 UUID_String_world0)
  from r0 h t1 t2 show ?thesis
    by (simp add: header_stamped request_id_round_trip)
qed

section \<open>Context fields and caller fields of an event\<close>

text \<open>
  C9, as amended. The fields of the logger that \<open>WithFields\<close> returns are those of the
  base logger, then each of \<open>request_id\<close>, \<open>trace_id\<close>, \<open>span_id\<close>, \<open>user_id\<close> that the
  context holds as a non-empty string, with the value of the context, then the caller's
  fields, unchanged and in the order of the loop. A caller's field with the key of a
  context field is kept as well, after the context's.
\<close>

theorem WithFields_keeps_both:
  "WithFields l c fs =
     zlog l @
     concat (map (\<lambda>(k, name). case vals c k of
                                  Some v \<Rightarrow> if v \<noteq> [] then [(name, AStr v)] else []
                                | None \<Rightarrow> [])
       [(RequestIDKey, ''request_id''), (TraceIDKey, ''trace_id''),
        (SpanIDKey, ''span_id''), (UserIDKey, ''user_id'')]) @
     fs"
  by (simp add: WithFields_append WithContext_def Let_def split: option.splits)

text \<open>
  C9 as stated fails: with \<open>trace_id = ctx-trace\<close> in the context and a caller's field
  \<open>trace_id = caller\<close>, the record carries both, and the caller's is the last.
\<close>

theorem WithFields_duplicate_key_counterexample:
  "vals (WithTraceID background ''ctx-trace'') TraceIDKey = Some ''ctx-trace''
   \<and> WithFields appLogger (WithTraceID background ''ctx-trace'') [(''trace_id'', AStr ''caller'')] =
       [(''app'', AStr ''go-api''), (''version'', AStr ''1.0.0''),
        (''trace_id'', AStr ''ctx-trace''), (''trace_id'', AStr ''caller'')]
   \<and> last (WithFields appLogger (WithTraceID background ''ctx-trace'')
        [(''trace_id'', AStr ''caller'')]) = (''trace_id'', AStr ''caller'')"
  by (simp add: WithFields_append WithContext_def Let_def WithTraceID_def WithValue_def
      background_def appLogger_def RequestIDKey_def TraceIDKey_def SpanIDKey_def UserIDKey_def)

section \<open>The middleware stack of main.go\<close>

text \<open>
  main.go installs \<open>Recovery\<close>, then \<open>TracedLogging\<close>, then \<open>MetricsMiddleware\<close> around
  every API handler (after the OpenTelemetry middleware, which is not part of this
  repository). Composed with \<open>Chain\<close> in that order, \<open>Recovery\<close> is the outermost.
\<close>

lemma api_stack_Chain:
  "Chain [Recovery log m, TracedLogging log, MetricsMiddleware m] final =
     Some (Recovery log m (TracedLogging log (MetricsMiddleware m final)))"
  using Chain_loop_prefix [of "[Recovery log m, TracedLogging log, MetricsMiddleware m]" "[]" final]
  by (simp add: Chain_def)

text \<open>
  A handler that panics under the whole stack: the request ends with a normal return, the
  gauge back at 0, one panic recovery, status 500 and one error event. The request is not
  counted in the request counter, which is only reached after a normal return.
\<close>

lemma api_stack_panic:
  "fst (Recovery appLogger (Some 0) (TracedLogging appLogger (MetricsMiddleware (Some 0) panicHandler))
          Conn request0 world0) = Return
   \<and> registry (snd (Recovery appLogger (Some 0)
          (TracedLogging appLogger (MetricsMiddleware (Some 0) panicHandler)) Conn request0 world0)) 0
       = \<lparr>RequestsTotal = (\<lambda>_. 0), RequestDuration = [], RequestsInFlight = 0, PanicRecoveries = 1\<rparr>
   \<and> status (resp (snd (Recovery appLogger (Some 0)
          (TracedLogging appLogger (MetricsMiddleware (Some 0) panicHandler)) Conn request0 world0))) = 500
   \<and> map level (logs (snd (Recovery appLogger (Some 0)
          (TracedLogging appLogger (MetricsMiddleware (Some 0) panicHandler)) Conn request0 world0)))
       = [ErrorLevel]"
  by (simp add: Recovery_def TracedLogging_def MetricsMiddleware_def panicHandler_def
      TracedLogging_resolve_def TracedLogging_stamp_def ExtractTraceContext_def uuid_New_def
      Let_def newResponseWriter_def RequestsInFlight_Inc_def RequestsInFlight_Dec_def
      PanicRecoveries_Inc_def Msg_def http_Error_def response_Write_def response_WriteHeader_def bodyAllowedForStatus_def Header_Del_def
      Header_Set_def Header_Get_def world0_def request0_def background_def fresh_response_def
      tracing_GetTraceID_def tracing_GetSpanID_def HasTraceID_def HasSpanID_def)

end
